theory Spec2Isabelle
  imports Complex_Main "HOL-Library.Word" "HOL-Library.Sublist" "HOL-Library.Char_ord"
    "HOL-Library.List_Lexorder"
begin

section \<open>TitanCompute coordinator: registry, scheduler and request handler\<close>

text \<open>
  A shallow embedding of the coordinator's Go packages \<^verbatim>\<open>registry\<close>, \<^verbatim>\<open>scheduler\<close> and
  \<^verbatim>\<open>server\<close>. Conventions:
  \<^item> \<^verbatim>\<open>int32\<close> and \<^verbatim>\<open>int64\<close> are \<open>32 word\<close> and \<open>64 word\<close>; Go compares them as signed
    values, written here with \<open>sint\<close>; \<open>+\<close> and \<open>-\<close> wrap as in Go.
  \<^item> \<^verbatim>\<open>float64\<close> is the type \<open>float64\<close> below: a real number, an infinity or NaN.
    Comparisons are exact, as in IEEE 754. Every arithmetic operation, every conversion
    from an integer and every constant that is no binary fraction rounds its exact value
    to a \<open>float64\<close>, each operation on its own (no fused multiply-add); that rounding is
    the argument \<open>rnd\<close> of the functions that compute with floats, and the theorems hold
    whatever it is. The two zeros are one value: no result of the code depends on the
    sign of a zero.
  \<^item> \<^verbatim>\<open>time.Time\<close> is an \<open>int\<close> of nanoseconds since the Unix epoch and
    \<^verbatim>\<open>time.Duration\<close> an \<open>int\<close> of nanoseconds; \<^verbatim>\<open>time.Now()\<close> is an argument \<open>now\<close> of
    each operation. \<^verbatim>\<open>Register\<close> and \<^verbatim>\<open>RecordFailure\<close> read the clock twice in a row
    under the lock; the two readings are taken to be the same instant.
  \<^item> a Go \<^verbatim>\<open>map[string]T\<close> is a map \<open>string \<rightharpoonup> T\<close>; where the code ranges over the map
    and the order of the visit shows in the result, the order of the keys visited is an
    argument \<open>order\<close>, since Go leaves it unspecified.
  \<^item> logging is not modelled; the read-write lock makes every operation atomic, so each
    operation is one state transformer.
\<close>

subsection \<open>Integers and time\<close>

type_synonym int32 = "32 word"
type_synonym int64 = "64 word"
type_synonym time = int
type_synonym duration = int

definition second :: duration where
  "second = 1000000000"

text \<open>The zero value of \<^verbatim>\<open>time.Time\<close>: January 1, year 1, 00:00 UTC.\<close>

definition zeroTime :: time where
  "zeroTime = - 62135596800 * second"

subsection \<open>Floating point\<close>

datatype float64 = Fin real | PosInf | NegInf | NaN

type_synonym rounding = "real \<Rightarrow> float64"

text \<open>Arithmetic without rounding error; the examples compute with it.\<close>

definition exact :: rounding where
  "exact x = Fin x"

text \<open>The comparisons \<^verbatim>\<open>>\<close>, \<^verbatim>\<open><\<close> and \<^verbatim>\<open>>=\<close>: false as soon as one side is NaN.\<close>

fun f_gt :: "float64 \<Rightarrow> float64 \<Rightarrow> bool" where
  "f_gt NaN b = False"
| "f_gt a NaN = False"
| "f_gt (Fin x) (Fin y) = (x > y)"
| "f_gt (Fin x) PosInf = False"
| "f_gt (Fin x) NegInf = True"
| "f_gt PosInf PosInf = False"
| "f_gt PosInf b = True"
| "f_gt NegInf b = False"

definition f_lt :: "float64 \<Rightarrow> float64 \<Rightarrow> bool" where
  "f_lt a b = f_gt b a"

definition f_ge :: "float64 \<Rightarrow> float64 \<Rightarrow> bool" where
  "f_ge a b = (a \<noteq> NaN \<and> b \<noteq> NaN \<and> \<not> f_gt b a)"

text \<open>The sign of a value: 1, -1, or 0 for zero and for NaN.\<close>

fun f_sign :: "float64 \<Rightarrow> int" where
  "f_sign (Fin x) = (if x > 0 then 1 else if x < 0 then - 1 else 0)"
| "f_sign PosInf = 1"
| "f_sign NegInf = - 1"
| "f_sign NaN = 0"

definition signedInf :: "int \<Rightarrow> float64" where
  "signedInf k = (if k > 0 then PosInf else if k < 0 then NegInf else NaN)"

fun f_neg :: "float64 \<Rightarrow> float64" where
  "f_neg (Fin x) = Fin (- x)"
| "f_neg PosInf = NegInf"
| "f_neg NegInf = PosInf"
| "f_neg NaN = NaN"

fun f_add :: "rounding \<Rightarrow> float64 \<Rightarrow> float64 \<Rightarrow> float64" where
  "f_add rnd (Fin x) (Fin y) = rnd (x + y)"
| "f_add rnd NaN b = NaN"
| "f_add rnd a NaN = NaN"
| "f_add rnd PosInf NegInf = NaN"
| "f_add rnd NegInf PosInf = NaN"
| "f_add rnd PosInf b = PosInf"
| "f_add rnd NegInf b = NegInf"
| "f_add rnd (Fin x) b = b"

definition f_sub :: "rounding \<Rightarrow> float64 \<Rightarrow> float64 \<Rightarrow> float64" where
  "f_sub rnd a b = f_add rnd a (f_neg b)"

fun f_mul :: "rounding \<Rightarrow> float64 \<Rightarrow> float64 \<Rightarrow> float64" where
  "f_mul rnd (Fin x) (Fin y) = rnd (x * y)"
| "f_mul rnd NaN b = NaN"
| "f_mul rnd a NaN = NaN"
| "f_mul rnd a b = signedInf (f_sign a * f_sign b)"

text \<open>
  Division. The model has one zero; a zero divisor counts as \<open>+0\<close>, which is what the
  conversion of the integer 0 gives, the only zero divisor the code can meet.
\<close>

fun f_div :: "rounding \<Rightarrow> float64 \<Rightarrow> float64 \<Rightarrow> float64" where
  "f_div rnd (Fin x) (Fin y) = (if y \<noteq> 0 then rnd (x / y) else signedInf (f_sign (Fin x)))"
| "f_div rnd NaN b = NaN"
| "f_div rnd a NaN = NaN"
| "f_div rnd (Fin x) b = Fin 0"
| "f_div rnd a (Fin y) = signedInf (f_sign a * (if y < 0 then - 1 else 1))"
| "f_div rnd a b = NaN"

text \<open>\<^verbatim>\<open>math.Min\<close> and \<^verbatim>\<open>math.Max\<close>: the infinity of their direction wins, then NaN.\<close>

fun f_min :: "float64 \<Rightarrow> float64 \<Rightarrow> float64" where
  "f_min NegInf b = NegInf"
| "f_min a NegInf = NegInf"
| "f_min NaN b = NaN"
| "f_min a NaN = NaN"
| "f_min PosInf b = b"
| "f_min a PosInf = a"
| "f_min (Fin x) (Fin y) = Fin (min x y)"

fun f_max :: "float64 \<Rightarrow> float64 \<Rightarrow> float64" where
  "f_max PosInf b = PosInf"
| "f_max a PosInf = PosInf"
| "f_max NaN b = NaN"
| "f_max a NaN = NaN"
| "f_max NegInf b = b"
| "f_max a NegInf = a"
| "f_max (Fin x) (Fin y) = Fin (max x y)"

text \<open>The conversions \<^verbatim>\<open>float64(n)\<close> of an \<^verbatim>\<open>int32\<close> and of an \<^verbatim>\<open>int64\<close>.\<close>

definition f_of_int32 :: "rounding \<Rightarrow> int32 \<Rightarrow> float64" where
  "f_of_int32 rnd n = rnd (real_of_int (sint n))"

definition f_of_int64 :: "rounding \<Rightarrow> int64 \<Rightarrow> float64" where
  "f_of_int64 rnd n = rnd (real_of_int (sint n))"

subsection \<open>Package registry: data\<close>

datatype AgentStatus = StatusHealthy | StatusDegraded | StatusHalfOpen | StatusOffline

record AgentInfo =
  ID :: string
  Endpoint :: string
  TotalVRAMMB :: int64
  TotalRAMMB :: int64
  MaxJobs :: int32
  SupportedModels :: "string list"
  Capabilities :: "(string \<times> string) list"
  FreeVRAMMB :: int64
  FreeRAMMB :: int64
  RunningJobs :: int32
  QueuedJobs :: int32
  CPUPercent :: float64
  RTTMs :: float64
  LastHeartbeat :: time
  Status :: AgentStatus
  RegisteredAt :: time
  FailureCount :: int32
  LastFailureTime :: time
  NextRetryTime :: time
  SuccessCount :: int32

record HealthStats =
  hs_AgentID :: string
  hs_FreeVRAMMB :: int64
  hs_FreeRAMMB :: int64
  hs_RunningJobs :: int32
  hs_QueuedJobs :: int32
  hs_CPUPercent :: float64
  hs_RTTMs :: float64
  hs_Timestamp :: int64

record CircuitBreakerConfig =
  FailureThreshold :: int32
  RecoveryTimeout :: duration
  SuccessThreshold :: int32
  HalfOpenTimeout :: duration

definition DefaultCircuitBreakerConfig :: CircuitBreakerConfig where
  "DefaultCircuitBreakerConfig =
     \<lparr>FailureThreshold = 3, RecoveryTimeout = 30 * second,
      SuccessThreshold = 2, HalfOpenTimeout = 10 * second\<rparr>"

record InMemoryRegistry =
  agents :: "string \<rightharpoonup> AgentInfo"
  heartbeatTimeout :: duration
  cleanupInterval :: duration
  circuitConfig :: CircuitBreakerConfig

datatype registry_error = ErrNotFound string | ErrNotRegistered string

definition NewInMemoryRegistry :: "duration \<Rightarrow> InMemoryRegistry" where
  "NewInMemoryRegistry hbTimeout =
     \<lparr>agents = Map.empty, heartbeatTimeout = hbTimeout,
      cleanupInterval = 60 * second, circuitConfig = DefaultCircuitBreakerConfig\<rparr>"

subsection \<open>Package registry: operations\<close>

text \<open>\<^verbatim>\<open>Register\<close> always returns a nil error, so the model returns the new state only.\<close>

definition Register :: "InMemoryRegistry \<Rightarrow> time \<Rightarrow> AgentInfo \<Rightarrow> InMemoryRegistry" where
  "Register r now agent =
     (let agent' = agent\<lparr>RegisteredAt := now, LastHeartbeat := now, Status := StatusHealthy\<rparr>
      in r\<lparr>agents := (agents r)(ID agent \<mapsto> agent')\<rparr>)"

definition Deregister :: "InMemoryRegistry \<Rightarrow> string \<Rightarrow> registry_error + InMemoryRegistry" where
  "Deregister r agentID =
     (case agents r agentID of
        None \<Rightarrow> Inl (ErrNotFound agentID)
      | Some _ \<Rightarrow> Inr (r\<lparr>agents := (agents r)(agentID := None)\<rparr>))"

definition applyHeartbeat :: "AgentInfo \<Rightarrow> HealthStats \<Rightarrow> time \<Rightarrow> AgentInfo" where
  "applyHeartbeat agent stats now =
     agent\<lparr>FreeVRAMMB := hs_FreeVRAMMB stats,
           FreeRAMMB := hs_FreeRAMMB stats,
           RunningJobs := hs_RunningJobs stats,
           QueuedJobs := hs_QueuedJobs stats,
           CPUPercent := hs_CPUPercent stats,
           RTTMs := hs_RTTMs stats,
           LastHeartbeat := now\<rparr>"

definition updateStatusFromMetrics :: "rounding \<Rightarrow> AgentInfo \<Rightarrow> AgentInfo" where
  "updateStatusFromMetrics rnd agent =
     (if Status agent = StatusHealthy \<or> Status agent = StatusDegraded then
        (let vramUtilization =
               f_div rnd (f_of_int64 rnd (TotalVRAMMB agent - FreeVRAMMB agent))
                         (f_of_int64 rnd (TotalVRAMMB agent))
         in if f_gt vramUtilization (rnd 0.9) \<or> f_gt (CPUPercent agent) (Fin 90)
               \<or> sint (FreeVRAMMB agent) < 512
            then (if Status agent = StatusHealthy then agent\<lparr>Status := StatusDegraded\<rparr> else agent)
            else if Status agent = StatusDegraded \<and> f_lt vramUtilization (rnd 0.7)
                    \<and> f_lt (CPUPercent agent) (Fin 70)
            then agent\<lparr>Status := StatusHealthy\<rparr>
            else agent)
      else agent)"

definition UpdateHealth ::
  "rounding \<Rightarrow> InMemoryRegistry \<Rightarrow> time \<Rightarrow> string \<Rightarrow> HealthStats
     \<Rightarrow> registry_error + InMemoryRegistry" where
  "UpdateHealth rnd r now agentID stats =
     (case agents r agentID of
        None \<Rightarrow> Inl (ErrNotRegistered agentID)
      | Some agent \<Rightarrow>
          Inr (r\<lparr>agents := (agents r)(agentID \<mapsto>
                 updateStatusFromMetrics rnd (applyHeartbeat agent stats now))\<rparr>))"

definition GetAgent :: "InMemoryRegistry \<Rightarrow> string \<Rightarrow> registry_error + AgentInfo" where
  "GetAgent r agentID =
     (case agents r agentID of None \<Rightarrow> Inl (ErrNotFound agentID) | Some agent \<Rightarrow> Inr agent)"

text \<open>
  \<^verbatim>\<open>ListHealthyAgents\<close> ranges over the map and appends a copy of every agent whose status
  is healthy; \<open>order\<close> is the order in which this range visits the keys.
\<close>

fun ListHealthyAgents :: "InMemoryRegistry \<Rightarrow> string list \<Rightarrow> AgentInfo list" where
  "ListHealthyAgents r [] = []"
| "ListHealthyAgents r (k # order) =
     (case agents r k of
        None \<Rightarrow> ListHealthyAgents r order
      | Some agent \<Rightarrow>
          if Status agent = StatusHealthy then agent # ListHealthyAgents r order
          else ListHealthyAgents r order)"

definition updateCircuitBreakerState :: "InMemoryRegistry \<Rightarrow> AgentInfo \<Rightarrow> time \<Rightarrow> AgentInfo" where
  "updateCircuitBreakerState r agent now =
     (case Status agent of
        StatusOffline \<Rightarrow>
          if now > NextRetryTime agent
          then agent\<lparr>Status := StatusHalfOpen,
                     NextRetryTime := now + HalfOpenTimeout (circuitConfig r)\<rparr>
          else agent
      | StatusHalfOpen \<Rightarrow>
          if now > NextRetryTime agent
          then agent\<lparr>Status := StatusOffline,
                     NextRetryTime := now + RecoveryTimeout (circuitConfig r)\<rparr>
          else agent
      | StatusDegraded \<Rightarrow>
          if sint (FreeVRAMMB agent) > 2048 \<and> f_lt (CPUPercent agent) (Fin 80)
          then agent\<lparr>Status := StatusHealthy, FailureCount := 0\<rparr>
          else agent
      | StatusHealthy \<Rightarrow> agent)"

text \<open>
  One cleanup tick. The loop body treats every agent on its own: a stale agent is marked
  offline and remembered in \<^verbatim>\<open>staleAgents\<close>, then the circuit breaker is advanced; the
  second loop deletes the stale ones. The result does not depend on the order of the range.
\<close>

definition isStale :: "InMemoryRegistry \<Rightarrow> AgentInfo \<Rightarrow> time \<Rightarrow> bool" where
  "isStale r agent now = (now - LastHeartbeat agent > heartbeatTimeout r)"

definition cleanupAgent :: "InMemoryRegistry \<Rightarrow> AgentInfo \<Rightarrow> time \<Rightarrow> AgentInfo" where
  "cleanupAgent r agent now =
     updateCircuitBreakerState r
       (if isStale r agent now then agent\<lparr>Status := StatusOffline\<rparr> else agent) now"

definition cleanupStaleAgents :: "InMemoryRegistry \<Rightarrow> time \<Rightarrow> InMemoryRegistry" where
  "cleanupStaleAgents r now =
     r\<lparr>agents := (\<lambda>k. case agents r k of
                        None \<Rightarrow> None
                      | Some agent \<Rightarrow>
                          if isStale r agent now then None
                          else Some (cleanupAgent r agent now))\<rparr>"

definition successUpdate :: "InMemoryRegistry \<Rightarrow> AgentInfo \<Rightarrow> AgentInfo" where
  "successUpdate r agent =
     (let agent1 = agent\<lparr>SuccessCount := SuccessCount agent + 1, FailureCount := 0\<rparr>
      in if Status agent1 = StatusHalfOpen
            \<and> sint (SuccessCount agent1) \<ge> sint (SuccessThreshold (circuitConfig r))
         then agent1\<lparr>Status := StatusHealthy, SuccessCount := 0\<rparr>
         else agent1)"

definition RecordSuccess :: "InMemoryRegistry \<Rightarrow> string \<Rightarrow> registry_error + InMemoryRegistry" where
  "RecordSuccess r agentID =
     (case agents r agentID of
        None \<Rightarrow> Inl (ErrNotFound agentID)
      | Some agent \<Rightarrow> Inr (r\<lparr>agents := (agents r)(agentID \<mapsto> successUpdate r agent)\<rparr>))"

definition failureUpdate :: "InMemoryRegistry \<Rightarrow> AgentInfo \<Rightarrow> time \<Rightarrow> AgentInfo" where
  "failureUpdate r agent now =
     (let agent1 = agent\<lparr>FailureCount := FailureCount agent + 1,
                         LastFailureTime := now, SuccessCount := 0\<rparr>
      in if sint (FailureCount agent1) \<ge> sint (FailureThreshold (circuitConfig r))
         then agent1\<lparr>Status := StatusOffline,
                      NextRetryTime := now + RecoveryTimeout (circuitConfig r)\<rparr>
         else agent1)"

definition RecordFailure ::
  "InMemoryRegistry \<Rightarrow> time \<Rightarrow> string \<Rightarrow> registry_error + InMemoryRegistry" where
  "RecordFailure r now agentID =
     (case agents r agentID of
        None \<Rightarrow> Inl (ErrNotFound agentID)
      | Some agent \<Rightarrow> Inr (r\<lparr>agents := (agents r)(agentID \<mapsto> failureUpdate r agent now)\<rparr>))"

definition GetCircuitState :: "InMemoryRegistry \<Rightarrow> string \<Rightarrow> registry_error + AgentStatus" where
  "GetCircuitState r agentID =
     (case agents r agentID of
        None \<Rightarrow> Inl (ErrNotFound agentID)
      | Some agent \<Rightarrow> Inr (Status agent))"


subsection \<open>Package scheduler\<close>

record MCDAWeights =
  VRAMWeight :: float64
  JobLoadWeight :: float64
  LatencyWeight :: float64
  PerformanceWeight :: float64

definition DefaultMCDAWeights :: "rounding \<Rightarrow> MCDAWeights" where
  "DefaultMCDAWeights rnd =
     \<lparr>VRAMWeight = rnd 0.40, JobLoadWeight = rnd 0.30, LatencyWeight = rnd 0.20,
      PerformanceWeight = rnd 0.10\<rparr>"

record AgentScore =
  Agent :: AgentInfo
  Score :: float64
  VRAMScore :: float64
  LoadScore :: float64
  RTTScore :: float64
  PerfScore :: float64

text \<open>
  The scheduler's reference to the registry is passed to \<open>SelectAgent\<close> as an argument;
  the scheduler's own state is its weights and the performance history.
\<close>

record MCDAScheduler =
  weights :: MCDAWeights
  perfHistory :: "string \<rightharpoonup> float64"

definition NewMCDAScheduler :: "rounding \<Rightarrow> MCDAScheduler" where
  "NewMCDAScheduler rnd = \<lparr>weights = DefaultMCDAWeights rnd, perfHistory = Map.empty\<rparr>"

text \<open>
  Go strings are byte strings and \<^verbatim>\<open>model[n:]\<close> is the suffix from byte \<open>n\<close>; the slices
  are taken only when the name has more than 10 bytes, so they are always in range.
\<close>

definition estimateModelVRAMRequirement :: "string \<Rightarrow> int64" where
  "estimateModelVRAMRequirement model =
     (if model = [] then 4096
      else if length model > 10 then
        (if drop (length model - 3) model = ''1B'' \<or> drop (length model - 2) model = ''1B''
         then 2048
         else if drop (length model - 3) model = ''7B'' \<or> drop (length model - 2) model = ''7B''
         then 6144
         else if drop (length model - 4) model = ''13B'' \<or> drop (length model - 3) model = ''13B''
         then 10240
         else 4096)
      else 4096)"

definition supportsModel :: "AgentInfo \<Rightarrow> string \<Rightarrow> bool" where
  "supportsModel agent model =
     (if Status agent = StatusOffline then False
      else if sint (FreeVRAMMB agent) < sint (estimateModelVRAMRequirement model) then False
      else if sint (RunningJobs agent) \<ge> sint (MaxJobs agent) then False
      else if length (SupportedModels agent) > 0 then model \<in> set (SupportedModels agent)
      else True)"

definition calculateMCDAScore :: "rounding \<Rightarrow> MCDAScheduler \<Rightarrow> AgentInfo \<Rightarrow> AgentScore" where
  "calculateMCDAScore rnd s agent =
     (let vramUtilization =
            f_div rnd (f_of_int64 rnd (TotalVRAMMB agent - FreeVRAMMB agent))
                      (f_max (f_of_int64 rnd (TotalVRAMMB agent)) (Fin 1));
          vramScore = f_sub rnd (Fin 1) vramUtilization;
          loadUtilization =
            f_div rnd (f_of_int32 rnd (RunningJobs agent))
                      (f_max (f_of_int32 rnd (MaxJobs agent)) (Fin 1));
          loadScore = f_sub rnd (Fin 1) loadUtilization;
          normalizedRTT = f_min (f_div rnd (RTTMs agent) (Fin 500)) (Fin 1);
          rttScore = f_sub rnd (Fin 1) normalizedRTT;
          perfScore = (case perfHistory s (ID agent) of
                         Some avgPerf \<Rightarrow> f_min (f_div rnd avgPerf (Fin 100)) (Fin 1)
                       | None \<Rightarrow> Fin 0.5)
      in \<lparr>Agent = agent,
          Score = f_add rnd
                    (f_add rnd
                       (f_add rnd (f_mul rnd vramScore (VRAMWeight (weights s)))
                                  (f_mul rnd loadScore (JobLoadWeight (weights s))))
                       (f_mul rnd rttScore (LatencyWeight (weights s))))
                    (f_mul rnd perfScore (PerformanceWeight (weights s))),
          VRAMScore = vramScore, LoadScore = loadScore,
          RTTScore = rttScore, PerfScore = perfScore\<rparr>)"

definition UpdatePerformanceHistory ::
  "rounding \<Rightarrow> MCDAScheduler \<Rightarrow> string \<Rightarrow> float64 \<Rightarrow> MCDAScheduler" where
  "UpdatePerformanceHistory rnd s agentID tokensPerSec =
     (case perfHistory s agentID of
        Some current \<Rightarrow>
          s\<lparr>perfHistory := (perfHistory s)(agentID \<mapsto>
               f_div rnd (f_add rnd current tokensPerSec) (Fin 2))\<rparr>
      | None \<Rightarrow> s\<lparr>perfHistory := (perfHistory s)(agentID \<mapsto> tokensPerSec)\<rparr>)"

text \<open>
  \<^verbatim>\<open>sort.Slice\<close> belongs to Go's standard library. On a slice of at most 12 elements it
  runs an insertion sort: element \<open>i\<close> is swapped leftwards while \<^verbatim>\<open>less(j, j-1)\<close> holds.
  That is the path modelled here; \<open>insertLeft\<close> keeps the sorted prefix in reverse, so that
  its head is the neighbour at \<open>j-1\<close>. On longer slices the library switches to a
  quicksort, which may place elements that compare equal in another order; a theorem that
  depends on the order of the result carries the bound of 12.
\<close>

fun insertLeft :: "('a \<Rightarrow> 'a \<Rightarrow> bool) \<Rightarrow> 'a \<Rightarrow> 'a list \<Rightarrow> 'a list" where
  "insertLeft before x [] = [x]"
| "insertLeft before x (y # ys) =
     (if before x y then y # insertLeft before x ys else x # y # ys)"

definition sort_Slice :: "('a \<Rightarrow> 'a \<Rightarrow> bool) \<Rightarrow> 'a list \<Rightarrow> 'a list" where
  "sort_Slice before xs = rev (foldl (\<lambda>pre x. insertLeft before x pre) [] xs)"

datatype sched_error = ErrNoHealthyAgents | ErrNoSuitableAgents

text \<open>The first loop of \<^verbatim>\<open>SelectAgent\<close>: filter and score the compatible agents.\<close>

fun scoreCompatible ::
  "rounding \<Rightarrow> MCDAScheduler \<Rightarrow> string \<Rightarrow> AgentInfo list \<Rightarrow> AgentScore list" where
  "scoreCompatible rnd s model [] = []"
| "scoreCompatible rnd s model (agent # rest) =
     (if supportsModel agent model then
        (if Status agent = StatusHealthy \<or> Status agent = StatusHalfOpen then
           (let score = calculateMCDAScore rnd s agent
            in (if Status agent = StatusDegraded
                then score\<lparr>Score := f_mul rnd (Score score) (Fin 0.5)\<rparr>
                else score)) # scoreCompatible rnd s model rest
         else scoreCompatible rnd s model rest)
      else scoreCompatible rnd s model rest)"

text \<open>The second loop, run when the first one found nobody: any healthy agent.\<close>

fun scoreHealthy :: "rounding \<Rightarrow> MCDAScheduler \<Rightarrow> AgentInfo list \<Rightarrow> AgentScore list" where
  "scoreHealthy rnd s [] = []"
| "scoreHealthy rnd s (agent # rest) =
     (if Status agent = StatusHealthy
      then calculateMCDAScore rnd s agent # scoreHealthy rnd s rest
      else scoreHealthy rnd s rest)"

definition candidatesOf ::
  "rounding \<Rightarrow> MCDAScheduler \<Rightarrow> string \<Rightarrow> AgentInfo list \<Rightarrow> AgentScore list" where
  "candidatesOf rnd s model agentList =
     (let candidates = scoreCompatible rnd s model agentList
      in if candidates = [] then scoreHealthy rnd s agentList else candidates)"

text \<open>
  \<^verbatim>\<open>candidates[0]\<close> is read after the emptiness check and sorting keeps the length, so
  the head exists whenever it is read.
\<close>

definition SelectAgent ::
  "rounding \<Rightarrow> MCDAScheduler \<Rightarrow> InMemoryRegistry \<Rightarrow> string list \<Rightarrow> string
     \<Rightarrow> sched_error + AgentInfo" where
  "SelectAgent rnd s r order model =
     (let agentList = ListHealthyAgents r order
      in if agentList = [] then Inl ErrNoHealthyAgents
         else (let candidates = candidatesOf rnd s model agentList
               in if candidates = [] then Inl ErrNoSuitableAgents
                  else Inr (Agent (hd (sort_Slice (\<lambda>a b. f_gt (Score a) (Score b))
                                         candidates)))))"

subsection \<open>Package server\<close>

record Config =
  Port :: int
  HTTPPort :: int
  HeartbeatTimeout :: duration
  TokenTTL :: duration
  CleanupInterval :: duration

record JWTClaims =
  jc_AgentID :: string
  jc_ClientID :: string
  jc_Model :: string
  jc_ID :: string
  jc_IssuedAt :: time
  jc_ExpiresAt :: time
  jc_NotBefore :: time
  jc_Issuer :: string

text \<open>
  A token string. Its compact serialisation (three base64url parts joined by dots, header
  and claims in JSON) is not modelled: a token string is what the JWT library's parser
  makes of it, namely the algorithm named in the header, the claims and the signature, or
  \<open>Malformed\<close> when it does not parse. What is signed is the header and the claims.
\<close>

datatype token_string = Compact string JWTClaims string | Malformed string

type_synonym signing_input = "string \<times> JWTClaims"

record SessionToken =
  st_ID :: string
  st_AgentID :: string
  st_ClientID :: string
  st_Model :: string
  st_IssuedAt :: time
  st_ExpiresAt :: time
  st_JWTToken :: token_string

text \<open>
  The JWT manager holds the RSA key pair. A key is represented by what the RSA library
  does with it: the private key by the signature it gives to a signing input (\<open>None\<close>
  when signing fails), the public key by the verdict of the verification of a signature
  over a signing input. \<^verbatim>\<open>NewJWTManager\<close> takes the public key from the private key it
  generates; that this public key accepts what the private key signs is the correctness
  of RSA, a hypothesis wherever a theorem needs it.
\<close>

record JWTManager =
  privateKey :: "signing_input \<Rightarrow> string option"
  publicKey :: "signing_input \<Rightarrow> string \<Rightarrow> bool"

record CoordinatorServer =
  srv_registry :: InMemoryRegistry
  srv_scheduler :: MCDAScheduler
  srv_config :: Config
  srv_tokens :: "string \<rightharpoonup> SessionToken"
  srv_jwtManager :: JWTManager

text \<open>
  What one \<^verbatim>\<open>RequestInference\<close> call reads from outside: the clock, at the two places
  that build timestamps, and the three fresh identifiers from \<^verbatim>\<open>uuid.New()\<close>.
\<close>

record Effects =
  now_session :: time
  now_jwt :: time
  uuid_jti :: string
  uuid_session :: string
  uuid_job :: string

datatype Code = InvalidArgument | Unavailable | Internal

type_synonym status_error = "Code \<times> string"

record InferenceRequest =
  req_ClientId :: string
  req_Model :: string
  req_Prompt :: string
  req_MaxTokens :: int32

record InferenceResponse =
  resp_AgentEndpoint :: string
  resp_SessionToken :: token_string
  resp_ExpiresAt :: int
  resp_JobId :: string
  resp_EstimatedRttMs :: float64
  resp_AgentId :: string

record AgentRegistration =
  reg_AgentId :: string
  reg_Endpoint :: string
  reg_TotalVramMb :: int64
  reg_TotalRamMb :: int64
  reg_MaxJobs :: int32
  reg_SupportedModels :: "string list"
  reg_Capabilities :: "(string \<times> string) list"

text \<open>\<^verbatim>\<open>jwt.NewNumericDate\<close> truncates the time to whole seconds.\<close>

definition NewNumericDate :: "time \<Rightarrow> time" where
  "NewNumericDate t = t - t mod second"

text \<open>\<^verbatim>\<open>Time.Unix()\<close>: the seconds since the epoch.\<close>

definition Unix :: "time \<Rightarrow> int" where
  "Unix t = t div second"

text \<open>
  \<^verbatim>\<open>GenerateToken\<close>: the claims, a token with the header algorithm \<open>RS256\<close>, and
  \<^verbatim>\<open>SignedString\<close>, which signs header and claims with the private key.
\<close>

definition GenerateToken ::
  "JWTManager \<Rightarrow> Effects \<Rightarrow> string \<Rightarrow> string \<Rightarrow> string \<Rightarrow> duration \<Rightarrow> token_string option" where
  "GenerateToken j env agentID clientID model ttl =
     (let now = now_jwt env;
          claims = \<lparr>jc_AgentID = agentID, jc_ClientID = clientID, jc_Model = model,
                    jc_ID = uuid_jti env,
                    jc_IssuedAt = NewNumericDate now,
                    jc_ExpiresAt = NewNumericDate (now + ttl),
                    jc_NotBefore = NewNumericDate now,
                    jc_Issuer = ''titancompute-coordinator''\<rparr>
      in case privateKey j (''RS256'', claims) of
           None \<Rightarrow> None
         | Some signature \<Rightarrow> Some (Compact ''RS256'' claims signature))"

text \<open>
  Modelled from the spec: \<^verbatim>\<open>jwt.ParseWithClaims\<close>, the parser and validator of the JWT
  library, which is not code of this repository. The specification (4.3) has the holder
  of the public key verify the signature and the time window; by the library's
  documentation the parser fails on a token that does not parse, when the key function
  gives no key for the header's algorithm, when the signature over header and claims does
  not verify under that key, when the token has expired (it is valid only while
  \<open>now < exp\<close>) and when it is not valid yet (\<open>now < nbf\<close>). \<open>now\<close> is the time of the
  check. Every token of the model carries all its claims, as the minted ones do.
\<close>

definition ParseWithClaims ::
  "(string \<Rightarrow> (signing_input \<Rightarrow> string \<Rightarrow> bool) option) \<Rightarrow> time \<Rightarrow> token_string
     \<Rightarrow> JWTClaims option" where
  "ParseWithClaims keyFunc now tokenString =
     (case tokenString of
        Malformed _ \<Rightarrow> None
      | Compact alg claims signature \<Rightarrow>
          (case keyFunc alg of
             None \<Rightarrow> None
           | Some key \<Rightarrow>
               if key (alg, claims) signature \<and> now < jc_ExpiresAt claims
                  \<and> jc_NotBefore claims \<le> now
               then Some claims else None))"

text \<open>
  The key function of \<^verbatim>\<open>ValidateToken\<close> gives the public key when the signing method is
  one of the RSA family (\<open>RS256\<close>, \<open>RS384\<close>, \<open>RS512\<close>) and an error otherwise.
\<close>

definition isSigningMethodRSA :: "string \<Rightarrow> bool" where
  "isSigningMethodRSA alg = (alg = ''RS256'' \<or> alg = ''RS384'' \<or> alg = ''RS512'')"

datatype token_error = ErrParseToken | ErrInvalidClaims

text \<open>
  \<^verbatim>\<open>ValidateToken\<close>: every failure of the parser is the error \<^verbatim>\<open>failed to parse token\<close>;
  a token that parsed is valid and its claims have the expected type, so the second
  error, \<^verbatim>\<open>invalid token claims\<close>, is never returned.
\<close>

definition ValidateToken :: "JWTManager \<Rightarrow> time \<Rightarrow> token_string \<Rightarrow> token_error + JWTClaims" where
  "ValidateToken j now tokenString =
     (case ParseWithClaims
             (\<lambda>alg. if isSigningMethodRSA alg then Some (publicKey j) else None)
             now tokenString of
        None \<Rightarrow> Inl ErrParseToken
      | Some claims \<Rightarrow> Inr claims)"

text \<open>
  \<^verbatim>\<open>generateSessionToken\<close> also starts a goroutine that, a minute later, drops expired
  entries of the token index; that later step is not part of the call.
\<close>

definition generateSessionToken ::
  "CoordinatorServer \<Rightarrow> Effects \<Rightarrow> string \<Rightarrow> string \<Rightarrow> string
     \<Rightarrow> (SessionToken \<times> CoordinatorServer) option" where
  "generateSessionToken srv env agentID clientID model =
     (let now = now_session env
      in case GenerateToken (srv_jwtManager srv) env agentID clientID model
                (TokenTTL (srv_config srv)) of
           None \<Rightarrow> None
         | Some jwtToken \<Rightarrow>
             (let token = \<lparr>st_ID = uuid_session env, st_AgentID = agentID,
                           st_ClientID = clientID, st_Model = model,
                           st_IssuedAt = now,
                           st_ExpiresAt = now + TokenTTL (srv_config srv),
                           st_JWTToken = jwtToken\<rparr>
              in Some (token, srv\<lparr>srv_tokens := (srv_tokens srv)(st_ID token \<mapsto> token)\<rparr>)))"

text \<open>
  The handler returns either a gRPC status (code and message) or the response, and the
  server state after the call. \<open>order\<close> is the key order of the registry range inside
  the scheduler.
\<close>

definition RequestInference ::
  "rounding \<Rightarrow> CoordinatorServer \<Rightarrow> Effects \<Rightarrow> string list \<Rightarrow> InferenceRequest
     \<Rightarrow> (status_error + InferenceResponse) \<times> CoordinatorServer" where
  "RequestInference rnd srv env order req =
     (if req_ClientId req = [] then (Inl (InvalidArgument, ''client_id is required''), srv)
      else if req_Model req = [] then (Inl (InvalidArgument, ''model is required''), srv)
      else if req_Prompt req = [] then (Inl (InvalidArgument, ''prompt is required''), srv)
      else case SelectAgent rnd (srv_scheduler srv) (srv_registry srv) order (req_Model req) of
             Inl err \<Rightarrow> (Inl (Unavailable, ''no agents available''), srv)
           | Inr agent \<Rightarrow>
               (case generateSessionToken srv env (ID agent) (req_ClientId req) (req_Model req) of
                  None \<Rightarrow> (Inl (Internal, ''token generation failed''), srv)
                | Some (token, srv') \<Rightarrow>
                    (Inr \<lparr>resp_AgentEndpoint = Endpoint agent,
                          resp_SessionToken = st_JWTToken token,
                          resp_ExpiresAt = Unix (st_ExpiresAt token),
                          resp_JobId = uuid_job env,
                          resp_EstimatedRttMs = RTTMs agent,
                          resp_AgentId = ID agent\<rparr>, srv')))"

text \<open>
  The agent record built by \<^verbatim>\<open>RegisterAgent\<close>: a composite literal, so every field it
  does not name has its zero value. The zero value of the status (the empty string) is
  not one of the four states; \<open>Register\<close> overwrites it before the record is stored, and
  the literal carries \<open>StatusHealthy\<close> in its place.
\<close>

definition newAgentInfo :: "AgentRegistration \<Rightarrow> AgentInfo" where
  "newAgentInfo req =
     \<lparr>ID = reg_AgentId req, Endpoint = reg_Endpoint req,
      TotalVRAMMB = reg_TotalVramMb req, TotalRAMMB = reg_TotalRamMb req,
      MaxJobs = reg_MaxJobs req, SupportedModels = reg_SupportedModels req,
      Capabilities = reg_Capabilities req,
      FreeVRAMMB = reg_TotalVramMb req, FreeRAMMB = reg_TotalRamMb req,
      RunningJobs = 0, QueuedJobs = 0, CPUPercent = Fin 0, RTTMs = Fin 0,
      LastHeartbeat = zeroTime, Status = StatusHealthy, RegisteredAt = zeroTime,
      FailureCount = 0, LastFailureTime = zeroTime, NextRetryTime = zeroTime,
      SuccessCount = 0\<rparr>"

text \<open>The state change of the \<^verbatim>\<open>RegisterAgent\<close> handler (its response text is left out).\<close>

definition RegisterAgent ::
  "CoordinatorServer \<Rightarrow> time \<Rightarrow> AgentRegistration \<Rightarrow> status_error + CoordinatorServer" where
  "RegisterAgent srv now req =
     (if reg_AgentId req = [] then Inl (InvalidArgument, ''agent_id is required'')
      else if reg_Endpoint req = [] then Inl (InvalidArgument, ''endpoint is required'')
      else Inr (srv\<lparr>srv_registry := Register (srv_registry srv) now (newAgentInfo req)\<rparr>))"

subsection \<open>Reachable registry states\<close>

text \<open>
  The registry starts empty with the default circuit-breaker configuration; every step is
  one call of the registry interface that succeeds, or one cleanup tick. \<open>Register\<close>
  stores the record it is given and resets no counter, so the step is taken for records
  whose failure count is at least 0 and below the failure threshold. The records of the
  \<^verbatim>\<open>RegisterAgent\<close> handler, the only caller of \<open>Register\<close> in the repository, are of
  that kind: their count is 0.
\<close>

inductive reachable :: "InMemoryRegistry \<Rightarrow> bool" where
  reach_new: "reachable (NewInMemoryRegistry hbTimeout)"
| reach_register:
    "reachable r \<Longrightarrow> 0 \<le> sint (FailureCount agent)
       \<Longrightarrow> sint (FailureCount agent) < sint (FailureThreshold (circuitConfig r))
       \<Longrightarrow> reachable (Register r now agent)"
| reach_health:
    "reachable r \<Longrightarrow> UpdateHealth rnd r now agentID stats = Inr r' \<Longrightarrow> reachable r'"
| reach_success: "reachable r \<Longrightarrow> RecordSuccess r agentID = Inr r' \<Longrightarrow> reachable r'"
| reach_failure: "reachable r \<Longrightarrow> RecordFailure r now agentID = Inr r' \<Longrightarrow> reachable r'"
| reach_deregister: "reachable r \<Longrightarrow> Deregister r agentID = Inr r' \<Longrightarrow> reachable r'"
| reach_cleanup: "reachable r \<Longrightarrow> reachable (cleanupStaleAgents r now)"

subsection \<open>The specification's admission filter\<close>

text \<open>
  The four admission conditions in the specification's words, to be compared with
  \<open>supportsModel\<close>: the status is healthy, degraded or half-open; the free VRAM covers
  the estimated requirement of the model; a job slot is free; the list of supported
  models is empty or names the model.
\<close>

definition admission_filter :: "AgentInfo \<Rightarrow> string \<Rightarrow> bool" where
  "admission_filter agent model =
     (Status agent \<in> {StatusHealthy, StatusDegraded, StatusHalfOpen}
      \<and> sint (FreeVRAMMB agent) \<ge> sint (estimateModelVRAMRequirement model)
      \<and> sint (RunningJobs agent) < sint (MaxJobs agent)
      \<and> (SupportedModels agent = [] \<or> model \<in> set (SupportedModels agent)))"

subsection \<open>The counter invariant\<close>

text \<open>
  While an agent is healthy or degraded its failure counter stays below the default
  threshold of 3: the third failure in a row moves it to offline.
\<close>

definition counters_ok :: "AgentInfo \<Rightarrow> bool" where
  "counters_ok agent =
     (Status agent = StatusHealthy \<or> Status agent = StatusDegraded
        \<longrightarrow> FailureCount agent \<in> {0, 1, 2})"

definition registry_ok :: "InMemoryRegistry \<Rightarrow> bool" where
  "registry_ok r =
     (circuitConfig r = DefaultCircuitBreakerConfig
      \<and> (\<forall>k agent. agents r k = Some agent \<longrightarrow> counters_ok agent))"

subsection \<open>Example data\<close>

definition exampleRegistration :: "string \<Rightarrow> int64 \<Rightarrow> AgentRegistration" where
  "exampleRegistration name vram =
     \<lparr>reg_AgentId = name, reg_Endpoint = ''10.0.0.7:50052'',
      reg_TotalVramMb = vram, reg_TotalRamMb = 16384, reg_MaxJobs = 4,
      reg_SupportedModels = [], reg_Capabilities = []\<rparr>"

text \<open>The record that \<open>Register\<close> stores for such a registration at time 0.\<close>

definition registered :: "string \<Rightarrow> int64 \<Rightarrow> AgentInfo" where
  "registered name vram =
     (newAgentInfo (exampleRegistration name vram))
       \<lparr>RegisteredAt := 0, LastHeartbeat := 0, Status := StatusHealthy\<rparr>"

definition emptyRegistry :: InMemoryRegistry where
  "emptyRegistry = NewInMemoryRegistry (30 * second)"

definition registryOf :: "(string \<rightharpoonup> AgentInfo) \<Rightarrow> InMemoryRegistry" where
  "registryOf m = emptyRegistry\<lparr>agents := m\<rparr>"

text \<open>One agent with 1 GB of VRAM; one agent with 8 GB; two agents that differ in their id only.\<close>

definition smallRegistry :: InMemoryRegistry where
  "smallRegistry = registryOf [''a1'' \<mapsto> registered ''a1'' 1024]"

definition singleRegistry :: InMemoryRegistry where
  "singleRegistry = registryOf [''a1'' \<mapsto> registered ''a1'' 8192]"

definition twinRegistry :: InMemoryRegistry where
  "twinRegistry = registryOf [''a1'' \<mapsto> registered ''a1'' 8192, ''a2'' \<mapsto> registered ''a2'' 8192]"

text \<open>A heartbeat with a CPU load of 95 percent, and the degraded record it leaves at time 1 s.\<close>

definition busyHeartbeat :: HealthStats where
  "busyHeartbeat =
     \<lparr>hs_AgentID = ''a1'', hs_FreeVRAMMB = 7000, hs_FreeRAMMB = 12000, hs_RunningJobs = 1,
      hs_QueuedJobs = 0, hs_CPUPercent = Fin 95, hs_RTTMs = Fin 5, hs_Timestamp = 1\<rparr>"

definition degradedAgent :: AgentInfo where
  "degradedAgent =
     (registered ''a1'' 8192)
       \<lparr>FreeVRAMMB := 7000, FreeRAMMB := 12000, RunningJobs := 1, QueuedJobs := 0,
        CPUPercent := Fin 95, RTTMs := Fin 5, LastHeartbeat := second,
        Status := StatusDegraded\<rparr>"

definition degradedRegistry :: InMemoryRegistry where
  "degradedRegistry = registryOf [''a1'' \<mapsto> degradedAgent]"

text \<open>A heartbeat that reports more free VRAM than the agent has, and more jobs than it allows.\<close>

definition wildHeartbeat :: HealthStats where
  "wildHeartbeat =
     \<lparr>hs_AgentID = ''a1'', hs_FreeVRAMMB = 9000, hs_FreeRAMMB = 12000, hs_RunningJobs = 7,
      hs_QueuedJobs = 0, hs_CPUPercent = Fin 10, hs_RTTMs = Fin 5, hs_Timestamp = 1\<rparr>"

definition wildAgent :: AgentInfo where
  "wildAgent =
     (registered ''a1'' 8192)
       \<lparr>FreeVRAMMB := 9000, FreeRAMMB := 12000, RunningJobs := 7, QueuedJobs := 0,
        CPUPercent := Fin 10, RTTMs := Fin 5, LastHeartbeat := second\<rparr>"

text \<open>The healthy record after one failure at time 5 s.\<close>

definition failedOnceAgent :: AgentInfo where
  "failedOnceAgent =
     (registered ''a1'' 8192)\<lparr>FailureCount := 1, LastFailureTime := 5 * second\<rparr>"

definition failedOnceRegistry :: InMemoryRegistry where
  "failedOnceRegistry = registryOf [''a1'' \<mapsto> failedOnceAgent]"

text \<open>
  An offline record whose retry time is 100 s, with a heartbeat at 90 s; a half-open
  record with one success so far.
\<close>

definition offlineAgent :: AgentInfo where
  "offlineAgent =
     (registered ''a1'' 8192)
       \<lparr>LastHeartbeat := 90 * second, Status := StatusOffline, FailureCount := 3,
        LastFailureTime := 70 * second, NextRetryTime := 100 * second\<rparr>"

definition offlineRegistry :: InMemoryRegistry where
  "offlineRegistry = registryOf [''a1'' \<mapsto> offlineAgent]"

definition halfOpenAgent :: AgentInfo where
  "halfOpenAgent =
     (registered ''a1'' 8192)
       \<lparr>Status := StatusHalfOpen, FailureCount := 3, NextRetryTime := 110 * second,
        SuccessCount := 1\<rparr>"

definition halfOpenRegistry :: InMemoryRegistry where
  "halfOpenRegistry = registryOf [''a1'' \<mapsto> halfOpenAgent]"

text \<open>
  An agent of 8 GB under load, with a slow link; an agent whose heartbeat reported NaN as
  its round-trip time; the registries that hold them next to a fresh agent \<open>a3\<close>.
\<close>

definition loadedHeartbeat :: HealthStats where
  "loadedHeartbeat =
     \<lparr>hs_AgentID = ''a1'', hs_FreeVRAMMB = 5000, hs_FreeRAMMB = 12000, hs_RunningJobs = 3,
      hs_QueuedJobs = 0, hs_CPUPercent = Fin 20, hs_RTTMs = Fin 400, hs_Timestamp = 1\<rparr>"

definition loadedAgent :: AgentInfo where
  "loadedAgent =
     (registered ''a1'' 8192)
       \<lparr>FreeVRAMMB := 5000, FreeRAMMB := 12000, RunningJobs := 3, QueuedJobs := 0,
        CPUPercent := Fin 20, RTTMs := Fin 400, LastHeartbeat := second\<rparr>"

definition nanHeartbeat :: HealthStats where
  "nanHeartbeat =
     \<lparr>hs_AgentID = ''a2'', hs_FreeVRAMMB = 8000, hs_FreeRAMMB = 12000, hs_RunningJobs = 0,
      hs_QueuedJobs = 0, hs_CPUPercent = Fin 10, hs_RTTMs = NaN, hs_Timestamp = 1\<rparr>"

definition nanAgent :: AgentInfo where
  "nanAgent =
     (registered ''a2'' 8192)
       \<lparr>FreeVRAMMB := 8000, FreeRAMMB := 12000, RunningJobs := 0, QueuedJobs := 0,
        CPUPercent := Fin 10, RTTMs := NaN, LastHeartbeat := second\<rparr>"

definition rankRegistry :: InMemoryRegistry where
  "rankRegistry = registryOf [''a1'' \<mapsto> loadedAgent, ''a3'' \<mapsto> registered ''a3'' 8192]"

definition nanRegistry :: InMemoryRegistry where
  "nanRegistry =
     registryOf [''a1'' \<mapsto> loadedAgent, ''a2'' \<mapsto> nanAgent, ''a3'' \<mapsto> registered ''a3'' 8192]"

text \<open>
  A toy key pair whose signature spells out what it signs and whose public key accepts
  exactly that signature; a key pair that cannot sign.
\<close>

definition toySignature :: "signing_input \<Rightarrow> string" where
  "toySignature m =
     fst m @ ''/'' @ jc_ID (snd m) @ ''/'' @ jc_AgentID (snd m) @ ''/'' @ jc_ClientID (snd m)
       @ ''/'' @ jc_Model (snd m)"

definition toyManager :: JWTManager where
  "toyManager =
     \<lparr>privateKey = (\<lambda>m. Some (toySignature m)), publicKey = (\<lambda>m sg. sg = toySignature m)\<rparr>"

definition brokenManager :: JWTManager where
  "brokenManager = \<lparr>privateKey = (\<lambda>m. None), publicKey = (\<lambda>m sg. False)\<rparr>"

definition exampleConfig :: Config where
  "exampleConfig =
     \<lparr>Port = 50051, HTTPPort = 8080, HeartbeatTimeout = 30 * second,
      TokenTTL = 60 * second, CleanupInterval = 60 * second\<rparr>"

definition exampleServer :: "InMemoryRegistry \<Rightarrow> JWTManager \<Rightarrow> CoordinatorServer" where
  "exampleServer r j =
     \<lparr>srv_registry = r, srv_scheduler = NewMCDAScheduler exact, srv_config = exampleConfig,
      srv_tokens = Map.empty, srv_jwtManager = j\<rparr>"

text \<open>The clock stands at 1000.2 s for the session record and at 1000.25 s for the claims.\<close>

definition exampleEffects :: Effects where
  "exampleEffects =
     \<lparr>now_session = 1000200000000, now_jwt = 1000250000000,
      uuid_jti = ''jti-1'', uuid_session = ''tok-1'', uuid_job = ''job-1''\<rparr>"

definition exampleRequest :: "string \<Rightarrow> InferenceRequest" where
  "exampleRequest prompt =
     \<lparr>req_ClientId = ''c1'', req_Model = ''llama3:7b'', req_Prompt = prompt,
      req_MaxTokens = 100\<rparr>"

text \<open>The claims minted at 1000.25 s with a lifetime of \<open>ttl\<close>, written out.\<close>

definition exampleClaims :: "time \<Rightarrow> JWTClaims" where
  "exampleClaims expiry =
     \<lparr>jc_AgentID = ''a1'', jc_ClientID = ''c1'', jc_Model = ''llama3:7b'', jc_ID = ''jti-1'',
      jc_IssuedAt = 1000 * second, jc_ExpiresAt = expiry, jc_NotBefore = 1000 * second,
      jc_Issuer = ''titancompute-coordinator''\<rparr>"

definition exampleJWT :: "time \<Rightarrow> token_string" where
  "exampleJWT expiry =
     Compact ''RS256'' (exampleClaims expiry) ''RS256/jti-1/a1/c1/llama3:7b''"

definition exampleToken :: SessionToken where
  "exampleToken =
     \<lparr>st_ID = ''tok-1'', st_AgentID = ''a1'', st_ClientID = ''c1'', st_Model = ''llama3:7b'',
      st_IssuedAt = 1000200000000, st_ExpiresAt = 1060200000000,
      st_JWTToken = exampleJWT (1060 * second)\<rparr>"

text \<open>Half a second, a lifetime that \<^verbatim>\<open>time.ParseDuration\<close> reads from \<^verbatim>\<open>500ms\<close>.\<close>

definition halfSecond :: duration where
  "halfSecond = 500000000"

section \<open>Lemmas\<close>

subsection \<open>Comparison of floats\<close>

lemma f_gt_irrefl: "\<not> f_gt a a"
  by (cases a) auto



lemmas float_defs = exact_def f_of_int32_def f_of_int64_def f_sub_def f_lt_def f_ge_def
  signedInf_def

subsection \<open>Registry invariant\<close>

lemma small_counter:
  fixes c :: int32
  assumes "0 \<le> sint c" and "sint c < 3"
  shows "c \<in> {0, 1, 2}"
proof -
  from assms have "sint c = 0 \<or> sint c = 1 \<or> sint c = 2" by arith
  moreover have "word_of_int (sint c) = c" by simp
  ultimately have "c = word_of_int 0 \<or> c = word_of_int 1 \<or> c = word_of_int 2" by metis
  then show ?thesis by auto
qed

lemma counters_ok_failureUpdate:
  "circuitConfig r = DefaultCircuitBreakerConfig \<Longrightarrow> counters_ok agent
     \<Longrightarrow> counters_ok (failureUpdate r agent now)"
  by (auto simp: counters_ok_def failureUpdate_def DefaultCircuitBreakerConfig_def Let_def)

lemma counters_ok_successUpdate: "counters_ok (successUpdate r agent)"
  by (simp add: counters_ok_def successUpdate_def Let_def)

lemma counters_ok_heartbeat:
  "counters_ok agent
     \<Longrightarrow> counters_ok (updateStatusFromMetrics rnd (applyHeartbeat agent stats now))"
  by (auto simp: counters_ok_def updateStatusFromMetrics_def applyHeartbeat_def Let_def)

lemma counters_ok_cleanupAgent: "counters_ok agent \<Longrightarrow> counters_ok (cleanupAgent r agent now)"
  by (auto simp: counters_ok_def cleanupAgent_def updateCircuitBreakerState_def
      split: AgentStatus.splits)

lemma counters_ok_Register:
  "0 \<le> sint (FailureCount agent) \<Longrightarrow> sint (FailureCount agent) < 3
     \<Longrightarrow> counters_ok (agent\<lparr>RegisteredAt := now, LastHeartbeat := now, Status := StatusHealthy\<rparr>)"
  using small_counter [of "FailureCount agent"] by (simp add: counters_ok_def)

lemma reachable_registry_ok: "reachable r \<Longrightarrow> registry_ok r"
proof (induction rule: reachable.induct)
  case (reach_new hbTimeout)
  show ?case by (simp add: registry_ok_def NewInMemoryRegistry_def)
next
  case (reach_register r agent now)
  then have "sint (FailureCount agent) < 3"
    by (simp add: registry_ok_def DefaultCircuitBreakerConfig_def)
  with reach_register show ?case
    using counters_ok_Register [of agent now]
    by (auto simp: registry_ok_def Register_def Let_def)
next
  case (reach_health r rnd now agentID stats r')
  then show ?case
    using counters_ok_heartbeat
    by (auto simp: registry_ok_def UpdateHealth_def split: option.splits if_splits)
next
  case (reach_success r agentID r')
  then show ?case
    using counters_ok_successUpdate
    by (auto simp: registry_ok_def RecordSuccess_def split: option.splits if_splits)
next
  case (reach_failure r now agentID r')
  then show ?case
    using counters_ok_failureUpdate
    by (auto simp: registry_ok_def RecordFailure_def split: option.splits if_splits)
next
  case (reach_deregister r agentID r')
  then show ?case
    by (auto simp: registry_ok_def Deregister_def split: option.splits if_splits)
next
  case (reach_cleanup r now)
  then show ?case
    using counters_ok_cleanupAgent
    by (auto simp: registry_ok_def cleanupStaleAgents_def split: option.splits if_splits)
qed

text \<open>
  A successful \<^verbatim>\<open>RegisterAgent\<close> is a registration step of \<open>reachable\<close>: its record has
  the failure count 0.
\<close>

lemma RegisterAgent_Inr:
  "RegisterAgent srv now req = Inr srv'
     \<Longrightarrow> reg_AgentId req \<noteq> [] \<and> reg_Endpoint req \<noteq> []
         \<and> srv_registry srv' = Register (srv_registry srv) now (newAgentInfo req)
         \<and> FailureCount (newAgentInfo req) = 0"
  by (auto simp: RegisterAgent_def newAgentInfo_def split: if_splits)

lemma reachable_RegisterAgent:
  assumes "reachable (srv_registry srv)" and "RegisterAgent srv now req = Inr srv'"
  shows "reachable (srv_registry srv')"
proof -
  from assms(1) have "circuitConfig (srv_registry srv) = DefaultCircuitBreakerConfig"
    using reachable_registry_ok by (simp add: registry_ok_def)
  then have "sint (FailureCount (newAgentInfo req))
               < sint (FailureThreshold (circuitConfig (srv_registry srv)))"
    by (simp add: newAgentInfo_def DefaultCircuitBreakerConfig_def)
  moreover have "0 \<le> sint (FailureCount (newAgentInfo req))"
    by (simp add: newAgentInfo_def)
  ultimately have "reachable (Register (srv_registry srv) now (newAgentInfo req))"
    using assms(1) by (simp add: reach_register)
  with RegisterAgent_Inr [OF assms(2)] show ?thesis by simp
qed

text \<open>\<open>Register\<close> keeps the counters of the record it is given.\<close>

lemma Register_keeps_counters:
  "agents (Register r now agent) (ID agent) =
     Some (agent\<lparr>RegisteredAt := now, LastHeartbeat := now, Status := StatusHealthy\<rparr>)"
  by (simp add: Register_def Let_def)

subsection \<open>Sorting lemmas\<close>

lemma set_insertLeft: "set (insertLeft before x ys) = insert x (set ys)"
  by (induction ys) auto

lemma set_foldl_insertLeft:
  "set (foldl (\<lambda>pre x. insertLeft before x pre) acc xs) = set acc \<union> set xs"
  by (induction xs arbitrary: acc) (auto simp: set_insertLeft)

lemma set_sort_Slice: "set (sort_Slice before xs) = set xs"
  by (simp add: sort_Slice_def set_foldl_insertLeft)

lemma sort_Slice_Nil_iff: "sort_Slice before xs = [] \<longleftrightarrow> xs = []"
  using set_sort_Slice [of before xs] by (metis set_empty)

lemma hd_sort_Slice_mem: "xs \<noteq> [] \<Longrightarrow> hd (sort_Slice before xs) \<in> set xs"
  using set_sort_Slice [of before xs] sort_Slice_Nil_iff [of before xs]
  by (metis list.set_sel(1))





text \<open>
  Whatever arrangement a sort gives: when no element is greater than one placed before
  it, no element is greater than the first.
\<close>

lemma head_of_descending_maximal:
  assumes "sorted_wrt (\<lambda>a b. \<not> f_gt (f b) (f a)) ranked" and "c \<in> set ranked"
  shows "\<not> f_gt (f c) (f (hd ranked))"
  using assms by (cases ranked) (auto simp: f_gt_irrefl)

subsection \<open>Scheduler lemmas\<close>

lemma supportsModel_admission: "supportsModel agent model \<longleftrightarrow> admission_filter agent model"
  by (cases "Status agent") (auto simp: supportsModel_def admission_filter_def)

lemma ListHealthyAgents_healthy:
  "agent \<in> set (ListHealthyAgents r order) \<Longrightarrow> Status agent = StatusHealthy"
  by (induction order) (auto split: option.splits if_splits)

lemma Agent_calculateMCDAScore: "Agent (calculateMCDAScore rnd s agent) = agent"
  by (simp add: calculateMCDAScore_def Let_def)

lemma scoreCompatible_mem:
  "c \<in> set (scoreCompatible rnd s model agentList)
     \<Longrightarrow> Agent c \<in> set agentList \<and> supportsModel (Agent c) model"
  by (induction agentList) (auto simp: Agent_calculateMCDAScore Let_def split: if_splits)

text \<open>No candidate of the first loop is degraded, and none carries a halved score.\<close>

lemma scoreCompatible_unpenalized:
  "c \<in> set (scoreCompatible rnd s model agentList)
     \<Longrightarrow> Status (Agent c) \<noteq> StatusDegraded \<and> c = calculateMCDAScore rnd s (Agent c)"
  by (induction agentList) (auto simp: Agent_calculateMCDAScore Let_def split: if_splits)

lemma scoreCompatible_Nil:
  "\<forall>agent \<in> set agentList. Status agent = StatusHealthy
     \<Longrightarrow> scoreCompatible rnd s model agentList = []
     \<Longrightarrow> agent \<in> set agentList \<Longrightarrow> \<not> supportsModel agent model"
  by (induction agentList) (auto simp: Let_def split: if_splits)

lemma scoreHealthy_mem:
  "c \<in> set (scoreHealthy rnd s agentList) \<Longrightarrow> Agent c \<in> set agentList"
  by (induction agentList) (auto simp: Agent_calculateMCDAScore split: if_splits)

lemma scoreHealthy_Nil:
  "\<forall>agent \<in> set agentList. Status agent = StatusHealthy
     \<Longrightarrow> scoreHealthy rnd s agentList = [] \<longleftrightarrow> agentList = []"
  by (induction agentList) auto

lemma candidatesOf_cases:
  assumes "\<forall>agent \<in> set agentList. Status agent = StatusHealthy"
    and "c \<in> set (candidatesOf rnd s model agentList)"
  shows "Agent c \<in> set agentList
         \<and> (supportsModel (Agent c) model
            \<or> (\<forall>b \<in> set agentList. \<not> supportsModel b model))"
proof (cases "scoreCompatible rnd s model agentList = []")
  case True
  with assms(2) have "c \<in> set (scoreHealthy rnd s agentList)"
    by (simp add: candidatesOf_def)
  then have "Agent c \<in> set agentList" by (rule scoreHealthy_mem)
  moreover have "\<forall>b \<in> set agentList. \<not> supportsModel b model"
    using scoreCompatible_Nil [OF assms(1) True] by blast
  ultimately show ?thesis by blast
next
  case False
  with assms(2) have "c \<in> set (scoreCompatible rnd s model agentList)"
    by (simp add: candidatesOf_def)
  then show ?thesis using scoreCompatible_mem by blast
qed

lemma candidatesOf_Nil:
  assumes "\<forall>agent \<in> set agentList. Status agent = StatusHealthy"
  shows "candidatesOf rnd s model agentList = [] \<longleftrightarrow> agentList = []"
  using scoreHealthy_Nil [OF assms, of rnd s]
  by (cases agentList) (auto simp: candidatesOf_def Let_def)

lemma SelectAgent_Inr:
  assumes "SelectAgent rnd s r order model = Inr agent"
  shows "candidatesOf rnd s model (ListHealthyAgents r order) \<noteq> []
     \<and> agent = Agent (hd (sort_Slice (\<lambda>a b. f_gt (Score a) (Score b))
                  (candidatesOf rnd s model (ListHealthyAgents r order))))"
  using assms by (auto simp: SelectAgent_def Let_def split: if_splits)

lemma SelectAgent_Inl:
  assumes "SelectAgent rnd s r order model = Inl err"
  shows "err = ErrNoHealthyAgents \<and> ListHealthyAgents r order = []"
proof -
  have h: "\<forall>agent \<in> set (ListHealthyAgents r order). Status agent = StatusHealthy"
    using ListHealthyAgents_healthy by blast
  show ?thesis
    using assms candidatesOf_Nil [OF h, of rnd s model]
    by (auto simp: SelectAgent_def Let_def split: if_splits)
qed

subsection \<open>Token lemmas\<close>

lemma NewNumericDate_mult: "NewNumericDate t = second * (t div second)"
  by (simp add: NewNumericDate_def minus_mod_eq_mult_div)

lemma NewNumericDate_add:
  assumes "ttl mod second = 0"
  shows "NewNumericDate (t + ttl) = NewNumericDate t + ttl"
proof -
  from assms have "(t + ttl) mod second = t mod second"
    by (metis add.right_neutral mod_add_right_eq)
  then show ?thesis by (simp add: NewNumericDate_def)
qed

text \<open>The distance from issue to expiry is the lifetime exactly for whole seconds.\<close>

lemma expiry_gap_iff:
  "NewNumericDate (t + ttl) - NewNumericDate t = ttl \<longleftrightarrow> ttl mod second = 0"
proof
  assume "NewNumericDate (t + ttl) - NewNumericDate t = ttl"
  then have "ttl = second * ((t + ttl) div second - t div second)"
    by (simp add: NewNumericDate_mult right_diff_distrib)
  then show "ttl mod second = 0" by (metis mod_mult_self1_is_0)
next
  assume "ttl mod second = 0"
  then show "NewNumericDate (t + ttl) - NewNumericDate t = ttl"
    by (simp add: NewNumericDate_add)
qed

text \<open>What a successful validation means: nothing passes without signature and window.\<close>

lemma ValidateToken_Inr:
  assumes "ValidateToken j now tokenString = Inr claims"
  shows "\<exists>alg sg. tokenString = Compact alg claims sg \<and> isSigningMethodRSA alg
           \<and> publicKey j (alg, claims) sg
           \<and> jc_NotBefore claims \<le> now \<and> now < jc_ExpiresAt claims"
  using assms
  by (auto simp: ValidateToken_def ParseWithClaims_def
      split: token_string.splits option.splits if_splits)

lemma GenerateToken_Some:
  assumes "GenerateToken j env agentID clientID model ttl = Some tokenString"
  shows "\<exists>sg. privateKey j
                 (''RS256'',
                  \<lparr>jc_AgentID = agentID, jc_ClientID = clientID, jc_Model = model,
                   jc_ID = uuid_jti env, jc_IssuedAt = NewNumericDate (now_jwt env),
                   jc_ExpiresAt = NewNumericDate (now_jwt env + ttl),
                   jc_NotBefore = NewNumericDate (now_jwt env),
                   jc_Issuer = ''titancompute-coordinator''\<rparr>) = Some sg
            \<and> tokenString =
                Compact ''RS256''
                  \<lparr>jc_AgentID = agentID, jc_ClientID = clientID, jc_Model = model,
                   jc_ID = uuid_jti env, jc_IssuedAt = NewNumericDate (now_jwt env),
                   jc_ExpiresAt = NewNumericDate (now_jwt env + ttl),
                   jc_NotBefore = NewNumericDate (now_jwt env),
                   jc_Issuer = ''titancompute-coordinator''\<rparr> sg"
  using assms by (auto simp: GenerateToken_def Let_def split: option.splits)

subsection \<open>Suffixes\<close>

lemma suffix_drop_iff:
  "suffix xs ys \<longleftrightarrow> length xs \<le> length ys \<and> drop (length ys - length xs) ys = xs"
  by (metis append_eq_conv_conj append_take_drop_id diff_add_inverse2 length_append le_add2 suffixE suffixI)

lemma drop3_ne_2: "length xs > 10 \<Longrightarrow> drop (length xs - 3) xs \<noteq> [a, b]"
proof
  assume "length xs > 10" "drop (length xs - 3) xs = [a, b]"
  then have "length (drop (length xs - 3) xs) = 2" by simp
  with \<open>length xs > 10\<close> show False by simp
qed

lemma drop4_ne_3: "length xs > 10 \<Longrightarrow> drop (length xs - 4) xs \<noteq> [a, b, c]"
proof
  assume "length xs > 10" "drop (length xs - 4) xs = [a, b, c]"
  then have "length (drop (length xs - 4) xs) = 3" by simp
  with \<open>length xs > 10\<close> show False by simp
qed

lemma suffix2: "length m > 10 \<Longrightarrow> suffix [a, b] m \<longleftrightarrow> drop (length m - 2) m = [a, b]"
  using suffix_drop_iff [of "[a, b]" m] by (simp add: numeral_2_eq_2)

lemma suffix3: "length m > 10 \<Longrightarrow> suffix [a, b, c] m \<longleftrightarrow> drop (length m - 3) m = [a, b, c]"
  using suffix_drop_iff [of "[a, b, c]" m] by (simp add: numeral_3_eq_3)

subsection \<open>Example registries\<close>

lemmas ex_defs = smallRegistry_def singleRegistry_def twinRegistry_def registryOf_def emptyRegistry_def
  NewInMemoryRegistry_def registered_def newAgentInfo_def exampleRegistration_def
  degradedRegistry_def degradedAgent_def failedOnceRegistry_def failedOnceAgent_def
  offlineRegistry_def offlineAgent_def halfOpenRegistry_def halfOpenAgent_def wildAgent_def
  wildHeartbeat_def busyHeartbeat_def DefaultCircuitBreakerConfig_def loadedHeartbeat_def
  loadedAgent_def nanHeartbeat_def nanAgent_def rankRegistry_def nanRegistry_def

lemma Register_small:
  "Register emptyRegistry 0 (newAgentInfo (exampleRegistration ''a1'' 1024)) = smallRegistry"
  by (simp add: Register_def ex_defs)

lemma Register_single:
  "Register emptyRegistry 0 (newAgentInfo (exampleRegistration ''a1'' 8192)) = singleRegistry"
  by (simp add: Register_def ex_defs)


lemma estimate_llama3: "estimateModelVRAMRequirement ''llama3'' = 4096"
  by (simp add: estimateModelVRAMRequirement_def)

lemma SelectAgent_small:
  "SelectAgent exact (NewMCDAScheduler exact) smallRegistry [''a1''] ''llama3''
     = Inr (registered ''a1'' 1024)"
  by (simp add: SelectAgent_def candidatesOf_def supportsModel_def estimate_llama3
      sort_Slice_def Agent_calculateMCDAScore smallRegistry_def registryOf_def registered_def
      newAgentInfo_def exampleRegistration_def Let_def)

lemma not_admitted_small: "\<not> admission_filter (registered ''a1'' 1024) ''llama3''"
  by (simp add: admission_filter_def estimate_llama3 registered_def newAgentInfo_def
      exampleRegistration_def)

lemma SelectAgent_single:
  "SelectAgent exact (NewMCDAScheduler exact) singleRegistry [''a1''] ''llama3''
     = Inr (registered ''a1'' 8192)"
  by (simp add: SelectAgent_def candidatesOf_def supportsModel_def estimate_llama3
      sort_Slice_def Agent_calculateMCDAScore singleRegistry_def registryOf_def registered_def
      newAgentInfo_def exampleRegistration_def Let_def)

lemma reachable_single: "reachable singleRegistry"
proof -
  have "reachable emptyRegistry"
    unfolding emptyRegistry_def by (rule reach_new)
  then have "reachable (Register emptyRegistry 0 (newAgentInfo (exampleRegistration ''a1'' 8192)))"
    by (rule reach_register) (simp_all add: ex_defs)
  then show ?thesis by (simp add: Register_single)
qed

lemma RecordFailure_single:
  "RecordFailure singleRegistry (5 * second) ''a1'' = Inr failedOnceRegistry"
  by (simp add: RecordFailure_def failureUpdate_def ex_defs Let_def)

lemma reachable_failedOnce: "reachable failedOnceRegistry"
  using reachable_single RecordFailure_single by (rule reach_failure)

lemma failedOnce_facts:
  "agents failedOnceRegistry ''a1'' = Some failedOnceAgent"
  "Status failedOnceAgent = StatusHealthy"
  "FailureCount failedOnceAgent = 1"
  by (simp_all add: ex_defs)


lemma registered_facts:
  "Status (registered name vram) = StatusHealthy"
  "ID (registered name vram) = name"
  by (simp_all add: registered_def newAgentInfo_def exampleRegistration_def)


lemma score_twin:
  "Score (calculateMCDAScore exact (NewMCDAScheduler exact) (registered name 8192)) = Fin 0.95"
  by (simp add: calculateMCDAScore_def NewMCDAScheduler_def DefaultMCDAWeights_def
      registered_def newAgentInfo_def exampleRegistration_def float_defs Let_def)

lemma admitted_twin: "admission_filter (registered name 8192) ''llama3''"
  by (simp add: admission_filter_def estimate_llama3 registered_def newAgentInfo_def
      exampleRegistration_def)




text \<open>The loaded agent and the agent with the NaN round-trip time, as heartbeats leave them.\<close>

lemma UpdateHealth_loaded:
  "UpdateHealth exact singleRegistry second ''a1'' loadedHeartbeat
     = Inr (registryOf [''a1'' \<mapsto> loadedAgent])"
  by (simp add: UpdateHealth_def updateStatusFromMetrics_def applyHeartbeat_def float_defs
      ex_defs Let_def)

lemma UpdateHealth_nan:
  "UpdateHealth exact (registryOf [''a2'' \<mapsto> registered ''a2'' 8192]) second ''a2'' nanHeartbeat
     = Inr (registryOf [''a2'' \<mapsto> nanAgent])"
  by (simp add: UpdateHealth_def updateStatusFromMetrics_def applyHeartbeat_def float_defs
      ex_defs Let_def)

lemma score_loaded:
  "Score (calculateMCDAScore exact (NewMCDAScheduler exact) loadedAgent)
     = Fin (5000 / 8192 * 0.4 + 0.165)"
  by (simp add: calculateMCDAScore_def NewMCDAScheduler_def DefaultMCDAWeights_def
      float_defs ex_defs Let_def)

lemma score_nan:
  "Score (calculateMCDAScore exact (NewMCDAScheduler exact) nanAgent) = NaN"
  by (simp add: calculateMCDAScore_def NewMCDAScheduler_def DefaultMCDAWeights_def
      float_defs ex_defs Let_def)

lemma admitted_loaded:
  "admission_filter loadedAgent ''llama3''" "Status loadedAgent = StatusHealthy"
  "admission_filter nanAgent ''llama3''" "Status nanAgent = StatusHealthy"
  by (simp_all add: admission_filter_def estimate_llama3 ex_defs)

lemma ListHealthyAgents_rank:
  "ListHealthyAgents rankRegistry [''a1'', ''a3''] = [loadedAgent, registered ''a3'' 8192]"
  "ListHealthyAgents nanRegistry [''a1'', ''a2'', ''a3'']
     = [loadedAgent, nanAgent, registered ''a3'' 8192]"
  by (simp_all add: rankRegistry_def nanRegistry_def registryOf_def registered_facts
      admitted_loaded)

lemma candidatesOf_rank:
  "candidatesOf exact (NewMCDAScheduler exact) ''llama3'' [loadedAgent, registered ''a3'' 8192] =
     [calculateMCDAScore exact (NewMCDAScheduler exact) loadedAgent,
      calculateMCDAScore exact (NewMCDAScheduler exact) (registered ''a3'' 8192)]"
  "candidatesOf exact (NewMCDAScheduler exact) ''llama3''
       [loadedAgent, nanAgent, registered ''a3'' 8192] =
     [calculateMCDAScore exact (NewMCDAScheduler exact) loadedAgent,
      calculateMCDAScore exact (NewMCDAScheduler exact) nanAgent,
      calculateMCDAScore exact (NewMCDAScheduler exact) (registered ''a3'' 8192)]"
  by (simp_all add: candidatesOf_def supportsModel_admission admitted_twin admitted_loaded
      registered_facts Let_def)


text \<open>
  A NaN among the scores stops the ranking: the comparator is false on both sides of it,
  the sort moves nothing, and the agent returned has a smaller score than another
  candidate.
\<close>

lemma nan_score_blocks_ranking:
  "SelectAgent exact (NewMCDAScheduler exact) nanRegistry [''a1'', ''a2'', ''a3''] ''llama3''
     = Inr loadedAgent
   \<and> f_gt (Score (calculateMCDAScore exact (NewMCDAScheduler exact) (registered ''a3'' 8192)))
          (Score (calculateMCDAScore exact (NewMCDAScheduler exact) loadedAgent))"
  by (simp add: SelectAgent_def ListHealthyAgents_rank candidatesOf_rank sort_Slice_def
      score_twin score_loaded score_nan Agent_calculateMCDAScore Let_def
      del: ListHealthyAgents.simps)

lemma estimate_llama3_7b: "estimateModelVRAMRequirement ''llama3:7b'' = 4096"
  by (simp add: estimateModelVRAMRequirement_def)

lemma SelectAgent_single_7b:
  "SelectAgent exact (NewMCDAScheduler exact) singleRegistry [''a1''] ''llama3:7b''
     = Inr (registered ''a1'' 8192)"
  by (simp add: SelectAgent_def candidatesOf_def supportsModel_def estimate_llama3_7b
      sort_Slice_def Agent_calculateMCDAScore singleRegistry_def registryOf_def registered_def
      newAgentInfo_def exampleRegistration_def Let_def)

lemma SelectAgent_empty:
  "SelectAgent rnd s emptyRegistry [] model = Inl ErrNoHealthyAgents"
  by (simp add: SelectAgent_def)

lemmas srv_defs = exampleServer_def exampleEffects_def exampleRequest_def exampleConfig_def
  exampleToken_def exampleJWT_def exampleClaims_def toyManager_def toySignature_def
  brokenManager_def halfSecond_def

lemma toy_keys_match: "\<forall>m sg. privateKey toyManager m = Some sg \<longrightarrow> publicKey toyManager m sg"
  by (simp add: toyManager_def)

lemma GenerateToken_example:
  "GenerateToken toyManager exampleEffects ''a1'' ''c1'' ''llama3:7b'' (60 * second)
     = Some (exampleJWT (1060 * second))"
  "GenerateToken toyManager exampleEffects ''a1'' ''c1'' ''llama3:7b'' halfSecond
     = Some (exampleJWT (1000 * second))"
  by (simp_all add: GenerateToken_def NewNumericDate_def srv_defs second_def Let_def)

section \<open>Claims\<close>

subsection \<open>C1: what the scheduler returns\<close>

text \<open>
  C1, as stated: \<open>SelectAgent\<close> either returns an agent that passes all four admission
  conditions or fails. Counterexample: with one healthy agent of 1 GB free VRAM and a model
  that needs 4 GB, the filter finds nobody, the fallback takes any healthy agent, and the
  agent returned does not pass the filter.
\<close>

theorem SelectAgent_fallback_counterexample:
  "Register emptyRegistry 0 (newAgentInfo (exampleRegistration ''a1'' 1024)) = smallRegistry
   \<and> SelectAgent exact (NewMCDAScheduler exact) smallRegistry [''a1''] ''llama3''
       = Inr (registered ''a1'' 1024)
   \<and> \<not> admission_filter (registered ''a1'' 1024) ''llama3''"
  using Register_small SelectAgent_small not_admitted_small by simp

text \<open>
  C1, amended: \<open>SelectAgent\<close> either returns an agent that passes all four admission
  conditions, or, when none of the agents handed to it passes them, an agent whose status
  is healthy, chosen with no resource or model constraint; it fails with the no-agents
  error only when no agent is handed to it at all.
\<close>

theorem SelectAgent_admitted_or_fallback:
  "(case SelectAgent rnd s r order model of
      Inl err \<Rightarrow> err = ErrNoHealthyAgents \<and> ListHealthyAgents r order = []
    | Inr agent \<Rightarrow>
        agent \<in> set (ListHealthyAgents r order)
        \<and> (admission_filter agent model
           \<or> (Status agent = StatusHealthy
               \<and> (\<forall>b \<in> set (ListHealthyAgents r order). \<not> admission_filter b model))))"
proof (cases "SelectAgent rnd s r order model")
  case (Inl err)
  then show ?thesis using SelectAgent_Inl by simp
next
  case (Inr agent)
  let ?L = "ListHealthyAgents r order"
  let ?C = "candidatesOf rnd s model ?L"
  let ?sel = "hd (sort_Slice (\<lambda>a b. f_gt (Score a) (Score b)) ?C)"
  have h: "\<forall>agent \<in> set ?L. Status agent = StatusHealthy"
    using ListHealthyAgents_healthy by blast
  from SelectAgent_Inr [OF Inr] have ne: "?C \<noteq> []" and ag: "agent = Agent ?sel" by auto
  from ne have "?sel \<in> set ?C" by (rule hd_sort_Slice_mem)
  from candidatesOf_cases [OF h this] ag
  have "agent \<in> set ?L"
    and "supportsModel agent model \<or> (\<forall>b \<in> set ?L. \<not> supportsModel b model)" by auto
  with h Inr show ?thesis by (auto simp: supportsModel_admission)
qed

theorem SelectAgent_admitted_or_fallback_witness:
  "(SelectAgent exact (NewMCDAScheduler exact) singleRegistry [''a1''] ''llama3''
      = Inr (registered ''a1'' 8192)
    \<and> registered ''a1'' 8192 \<in> set (ListHealthyAgents singleRegistry [''a1''])
    \<and> admission_filter (registered ''a1'' 8192) ''llama3'')
   \<and> (SelectAgent exact (NewMCDAScheduler exact) smallRegistry [''a1''] ''llama3''
      = Inr (registered ''a1'' 1024)
    \<and> Status (registered ''a1'' 1024) = StatusHealthy
    \<and> ListHealthyAgents smallRegistry [''a1''] = [registered ''a1'' 1024]
    \<and> \<not> admission_filter (registered ''a1'' 1024) ''llama3'')"
  using SelectAgent_admitted_or_fallback
      [where rnd = exact and s = "NewMCDAScheduler exact" and r = singleRegistry
         and order = "[''a1'']" and model = "''llama3''"]
    SelectAgent_admitted_or_fallback
      [where rnd = exact and s = "NewMCDAScheduler exact" and r = smallRegistry
         and order = "[''a1'']" and model = "''llama3''"]
    not_admitted_small
  by (simp add: SelectAgent_single SelectAgent_small)
     (simp add: admission_filter_def estimate_llama3 ex_defs)

subsection \<open>C2: degraded agents\<close>

text \<open>
  C2 says that a degraded agent that meets the resource and model conditions is a
  candidate, ranked with half its score. The code does not get there: the registry hands
  only healthy agents to the scheduler, and the candidate loop admits only healthy and
  half-open ones, so the branch that halves a degraded agent's score never runs. Here a
  heartbeat with 95 percent CPU load degrades the only agent, which still passes the
  admission filter, and the scheduler reports that no agent is available, whatever the
  rounding of the arithmetic.
\<close>

theorem degraded_agent_not_scheduled:
  "UpdateHealth rnd singleRegistry second ''a1'' busyHeartbeat = Inr degradedRegistry
   \<and> Status degradedAgent = StatusDegraded
   \<and> admission_filter degradedAgent ''llama3''
   \<and> SelectAgent rnd (NewMCDAScheduler rnd) degradedRegistry [''a1''] ''llama3''
       = Inl ErrNoHealthyAgents"
  by (simp add: UpdateHealth_def updateStatusFromMetrics_def applyHeartbeat_def float_defs
      admission_filter_def estimate_llama3 SelectAgent_def ex_defs Let_def)

subsection \<open>C3: the token round trip\<close>

text \<open>
  C3, as stated: for every positive token lifetime the claims of a minted token satisfy
  \<open>exp > iat\<close> and \<open>exp - iat = token_ttl\<close>. Counterexample: both times are truncated to
  whole seconds, so a token minted at 1000.25 s with a lifetime of half a second has
  \<open>iat = exp = 1000 s\<close>.
\<close>

theorem subsecond_ttl_counterexample:
  "0 < halfSecond
   \<and> GenerateToken toyManager exampleEffects ''a1'' ''c1'' ''llama3:7b'' halfSecond
       = Some (Compact ''RS256'' (exampleClaims (1000 * second)) ''RS256/jti-1/a1/c1/llama3:7b'')
   \<and> jc_IssuedAt (exampleClaims (1000 * second)) = 1000 * second
   \<and> jc_ExpiresAt (exampleClaims (1000 * second)) = 1000 * second
   \<and> \<not> jc_ExpiresAt (exampleClaims (1000 * second)) > jc_IssuedAt (exampleClaims (1000 * second))
   \<and> jc_ExpiresAt (exampleClaims (1000 * second)) - jc_IssuedAt (exampleClaims (1000 * second))
       \<noteq> halfSecond"
  using GenerateToken_example(2) by (simp add: srv_defs)

text \<open>
  C3, amended: for every token minted by the signing authority with agent id, client id,
  model and a configured lifetime that is a positive whole number of seconds, and with a
  public key that accepts what the private key signs: verifying the token at any time
  within \<open>[iat, exp)\<close> succeeds and yields exactly the minted claims, which bind the agent,
  the client and the model, and the claims satisfy \<open>exp > iat\<close> and
  \<open>exp - iat = token_ttl\<close>, where \<open>iat\<close> is the time of minting truncated to whole
  seconds.
\<close>

theorem minted_token_round_trip:
  assumes keys: "\<forall>m sg. privateKey j m = Some sg \<longrightarrow> publicKey j m sg"
    and pos: "0 < ttl" and whole: "ttl mod second = 0"
    and mint: "GenerateToken j env agentID clientID model ttl = Some tokenString"
    and window: "NewNumericDate (now_jwt env) \<le> now" "now < NewNumericDate (now_jwt env) + ttl"
  shows "\<exists>claims sg.
           tokenString = Compact ''RS256'' claims sg
           \<and> ValidateToken j now tokenString = Inr claims
           \<and> claims = \<lparr>jc_AgentID = agentID, jc_ClientID = clientID, jc_Model = model,
                        jc_ID = uuid_jti env, jc_IssuedAt = NewNumericDate (now_jwt env),
                        jc_ExpiresAt = NewNumericDate (now_jwt env) + ttl,
                        jc_NotBefore = NewNumericDate (now_jwt env),
                        jc_Issuer = ''titancompute-coordinator''\<rparr>
           \<and> jc_ExpiresAt claims > jc_IssuedAt claims
           \<and> jc_ExpiresAt claims - jc_IssuedAt claims = ttl"
proof -
  let ?claims = "\<lparr>jc_AgentID = agentID, jc_ClientID = clientID, jc_Model = model,
                   jc_ID = uuid_jti env, jc_IssuedAt = NewNumericDate (now_jwt env),
                   jc_ExpiresAt = NewNumericDate (now_jwt env) + ttl,
                   jc_NotBefore = NewNumericDate (now_jwt env),
                   jc_Issuer = ''titancompute-coordinator''\<rparr>"
  from GenerateToken_Some [OF mint] obtain sg
    where sg: "privateKey j (''RS256'', ?claims) = Some sg"
      and tok: "tokenString = Compact ''RS256'' ?claims sg"
    by (auto simp: NewNumericDate_add [OF whole])
  from keys sg have "publicKey j (''RS256'', ?claims) sg" by blast
  with window have "ValidateToken j now (Compact ''RS256'' ?claims sg) = Inr ?claims"
    by (simp add: ValidateToken_def ParseWithClaims_def isSigningMethodRSA_def)
  with tok pos show ?thesis by simp
qed

theorem minted_token_round_trip_witness:
  "0 < 60 * second \<and> (60 * second) mod second = 0
   \<and> GenerateToken toyManager exampleEffects ''a1'' ''c1'' ''llama3:7b'' (60 * second)
       = Some (exampleJWT (1060 * second))
   \<and> NewNumericDate (now_jwt exampleEffects) = 1000 * second
   \<and> ValidateToken toyManager (1030 * second) (exampleJWT (1060 * second))
       = Inr (exampleClaims (1060 * second))
   \<and> jc_AgentID (exampleClaims (1060 * second)) = ''a1''
   \<and> jc_ExpiresAt (exampleClaims (1060 * second)) - jc_IssuedAt (exampleClaims (1060 * second))
       = 60 * second"
  using minted_token_round_trip
      [OF toy_keys_match _ _ GenerateToken_example(1), of "1030 * second"]
    GenerateToken_example(1)
  by (simp add: NewNumericDate_def srv_defs second_def)

text \<open>The same token is refused once the clock reaches \<open>exp\<close>, and so is a forged signature.\<close>

lemma token_refused:
  "ValidateToken toyManager (1060 * second) (exampleJWT (1060 * second)) = Inl ErrParseToken"
  "ValidateToken toyManager (1030 * second)
     (Compact ''RS256'' (exampleClaims (1060 * second)) ''forged'') = Inl ErrParseToken"
  by (simp_all add: ValidateToken_def ParseWithClaims_def isSigningMethodRSA_def srv_defs
      second_def)

subsection \<open>C4: the failure counter of a healthy agent\<close>

text \<open>
  C4, as stated: in every reachable state a healthy agent has a failure count of 0.
  Counterexample: after registration and one recorded failure the agent is still healthy
  and its failure count is 1.
\<close>

theorem healthy_nonzero_failure_count_counterexample:
  "reachable failedOnceRegistry
   \<and> agents failedOnceRegistry ''a1'' = Some failedOnceAgent
   \<and> Status failedOnceAgent = StatusHealthy
   \<and> FailureCount failedOnceAgent \<noteq> 0"
  using reachable_failedOnce failedOnce_facts by simp

text \<open>
  C4, amended: in every registry state reached from the empty registry by any sequence of
  Register, UpdateHealth, RecordSuccess, RecordFailure, Deregister and cleanup ticks in
  which every record given to Register has a failure count of at least 0 and below the
  failure threshold (the records of the RegisterAgent handler have 0), every agent whose
  status is healthy has a failure count of at least 0 and below the failure threshold,
  which is 3. Register itself resets no counter, a success resets the failure count, and
  the agent leaves the healthy state when the count reaches the threshold.
\<close>

theorem healthy_failure_count_below_threshold:
  assumes "reachable r" and "agents r k = Some agent" and "Status agent = StatusHealthy"
  shows "0 \<le> sint (FailureCount agent)
         \<and> sint (FailureCount agent) < sint (FailureThreshold (circuitConfig r))
         \<and> FailureThreshold (circuitConfig r) = 3"
proof -
  from assms(1) have ok: "registry_ok r" by (rule reachable_registry_ok)
  with assms(2,3) have "FailureCount agent \<in> {0, 1, 2}"
    by (auto simp: registry_ok_def counters_ok_def)
  moreover from ok have "FailureThreshold (circuitConfig r) = 3"
    by (simp add: registry_ok_def DefaultCircuitBreakerConfig_def)
  ultimately show ?thesis by auto
qed

theorem healthy_failure_count_below_threshold_witness:
  "reachable failedOnceRegistry
   \<and> agents failedOnceRegistry ''a1'' = Some failedOnceAgent
   \<and> Status failedOnceAgent = StatusHealthy
   \<and> 0 \<le> sint (FailureCount failedOnceAgent)
   \<and> sint (FailureCount failedOnceAgent) < sint (FailureThreshold (circuitConfig failedOnceRegistry))"
  using healthy_failure_count_below_threshold
      [OF reachable_failedOnce failedOnce_facts(1) failedOnce_facts(2)]
    reachable_failedOnce failedOnce_facts
  by simp

subsection \<open>C5: heartbeat values\<close>

text \<open>
  C5, as stated: after a heartbeat the free VRAM lies between 0 and the total and the
  running jobs between 0 and the maximum, values outside being clamped. Counterexample: a
  heartbeat that reports 9000 MB free on an agent with 8192 MB and 7 running jobs with a
  maximum of 4 is stored as it is.
\<close>

theorem UpdateHealth_not_clamped_counterexample:
  "UpdateHealth exact singleRegistry second ''a1'' wildHeartbeat
     = Inr (registryOf [''a1'' \<mapsto> wildAgent])
   \<and> sint (FreeVRAMMB wildAgent) > sint (TotalVRAMMB wildAgent)
   \<and> sint (RunningJobs wildAgent) > sint (MaxJobs wildAgent)"
  by (simp add: UpdateHealth_def updateStatusFromMetrics_def applyHeartbeat_def float_defs
      ex_defs Let_def)

text \<open>
  C5, amended: after every successful \<open>UpdateHealth\<close> on a registered agent, the record
  holds the heartbeat's free VRAM, free RAM, running jobs, queued jobs, CPU load and RTT
  exactly as given, next to the unchanged total VRAM and job limit; nothing is clamped, so
  the two ranges hold after the heartbeat exactly when the heartbeat's values lie in them.
\<close>

theorem UpdateHealth_stores_as_given:
  assumes "agents r agentID = Some agent"
  shows "\<exists>r' agent'. UpdateHealth rnd r now agentID stats = Inr r'
     \<and> agents r' agentID = Some agent'
     \<and> FreeVRAMMB agent' = hs_FreeVRAMMB stats \<and> FreeRAMMB agent' = hs_FreeRAMMB stats
     \<and> RunningJobs agent' = hs_RunningJobs stats \<and> QueuedJobs agent' = hs_QueuedJobs stats
     \<and> CPUPercent agent' = hs_CPUPercent stats \<and> RTTMs agent' = hs_RTTMs stats
     \<and> TotalVRAMMB agent' = TotalVRAMMB agent \<and> MaxJobs agent' = MaxJobs agent"
  using assms by (simp add: UpdateHealth_def updateStatusFromMetrics_def applyHeartbeat_def Let_def)

theorem UpdateHealth_stores_as_given_witness:
  "agents singleRegistry ''a1'' = Some (registered ''a1'' 8192)
   \<and> UpdateHealth exact singleRegistry second ''a1'' wildHeartbeat
       = Inr (registryOf [''a1'' \<mapsto> wildAgent])
   \<and> FreeVRAMMB wildAgent = hs_FreeVRAMMB wildHeartbeat
   \<and> RunningJobs wildAgent = hs_RunningJobs wildHeartbeat"
  using UpdateHealth_stores_as_given
      [of singleRegistry "''a1''" "registered ''a1'' 8192" exact second wildHeartbeat]
  by (simp add: UpdateHealth_def updateStatusFromMetrics_def applyHeartbeat_def float_defs
      ex_defs Let_def)

subsection \<open>C6: ties\<close>




subsection \<open>C7: the VRAM estimate\<close>

text \<open>
  C7, as stated: a name whose suffix is \<open>1B\<close> is estimated at 2048 MB. Counterexample:
  the name \<open>gemma-1B\<close> ends in \<open>1B\<close> and is estimated at 4096 MB, since names of at most
  10 bytes always get the default.
\<close>

theorem estimate_short_name_counterexample:
  "suffix ''1B'' ''gemma-1B'' \<and> estimateModelVRAMRequirement ''gemma-1B'' \<noteq> 2048"
  by (simp add: estimateModelVRAMRequirement_def suffix_drop_iff)

text \<open>
  C7, amended: the estimate is 2048 for a name of more than 10 bytes that ends in \<open>1B\<close>,
  6144 for one that ends in \<open>7B\<close>, 10240 for one that ends in \<open>13B\<close>, and 4096 in every
  other case, which includes the empty name and every name of at most 10 bytes.
\<close>

theorem estimateModelVRAMRequirement_cases:
  "estimateModelVRAMRequirement model =
     (if length model > 10 \<and> suffix ''1B'' model then 2048
      else if length model > 10 \<and> suffix ''7B'' model then 6144
      else if length model > 10 \<and> suffix ''13B'' model then 10240
      else 4096)"
proof (cases "length model > 10")
  case True
  then have "model \<noteq> []" by auto
  with True show ?thesis
    unfolding estimateModelVRAMRequirement_def
    by (simp only: suffix2 [OF True] suffix3 [OF True] drop3_ne_2 [OF True]
          drop4_ne_3 [OF True] simp_thms if_True if_False)
next
  case False
  then show ?thesis by (simp add: estimateModelVRAMRequirement_def)
qed

subsection \<open>C8: the retry time of an offline agent\<close>

text \<open>
  C8, as stated: a cleanup tick at the very time \<open>now = next_retry_time\<close> moves an
  offline agent to half-open. Counterexample: the tick at 100 s leaves the offline agent
  with retry time 100 s as it is.
\<close>

theorem cleanup_at_retry_time_counterexample:
  "agents offlineRegistry ''a1'' = Some offlineAgent
   \<and> Status offlineAgent = StatusOffline
   \<and> NextRetryTime offlineAgent = 100 * second
   \<and> agents (cleanupStaleAgents offlineRegistry (100 * second)) ''a1'' = Some offlineAgent"
  by (simp add: cleanupStaleAgents_def cleanupAgent_def isStale_def
      updateCircuitBreakerState_def ex_defs second_def)

text \<open>
  C8, amended: for every offline agent whose heartbeat is not stale, a cleanup tick at a
  time \<open>now\<close> strictly after the retry time moves it to half-open and sets the retry time
  to \<open>now\<close> plus the half-open timeout; a tick at or before the retry time leaves the
  record unchanged.
\<close>

theorem cleanup_offline_retry:
  assumes "agents r k = Some agent" and "Status agent = StatusOffline"
    and "\<not> isStale r agent now"
  shows "agents (cleanupStaleAgents r now) k =
           Some (if now > NextRetryTime agent
                 then agent\<lparr>Status := StatusHalfOpen,
                            NextRetryTime := now + HalfOpenTimeout (circuitConfig r)\<rparr>
                 else agent)"
  using assms by (simp add: cleanupStaleAgents_def cleanupAgent_def updateCircuitBreakerState_def)

theorem cleanup_offline_retry_witness:
  "agents offlineRegistry ''a1'' = Some offlineAgent
   \<and> Status offlineAgent = StatusOffline
   \<and> \<not> isStale offlineRegistry offlineAgent (101 * second)
   \<and> agents (cleanupStaleAgents offlineRegistry (101 * second)) ''a1'' =
       Some (offlineAgent\<lparr>Status := StatusHalfOpen, NextRetryTime := 111 * second\<rparr>)"
  using cleanup_offline_retry [of offlineRegistry "''a1''" offlineAgent "101 * second"]
  by (simp add: isStale_def ex_defs second_def)

subsection \<open>C9: the outcomes of RequestInference\<close>

text \<open>
  C9: with an empty client id, model or prompt the handler answers \<open>InvalidArgument\<close> and
  leaves the server state, the token index included, as it was; with all three present it
  answers \<open>Unavailable\<close> when the scheduler finds no agent and \<open>Internal\<close> when signing
  fails, again without a change of state; otherwise it answers with the endpoint and id of
  the selected agent, a job id, the expiry in Unix seconds and the session token: the
  private key's signature over the \<open>RS256\<close> header and the claims that bind the selected
  agent, the client and the model, with the times of issue and expiry in whole seconds;
  and the token index has the new session record.
\<close>

theorem RequestInference_outcomes:
  "(req_ClientId req = [] \<or> req_Model req = [] \<or> req_Prompt req = [] \<longrightarrow>
      (\<exists>msg. RequestInference rnd srv env order req = (Inl (InvalidArgument, msg), srv)))
   \<and> (req_ClientId req \<noteq> [] \<and> req_Model req \<noteq> [] \<and> req_Prompt req \<noteq> [] \<longrightarrow>
      (case SelectAgent rnd (srv_scheduler srv) (srv_registry srv) order (req_Model req) of
         Inl err \<Rightarrow>
           (\<exists>msg. RequestInference rnd srv env order req = (Inl (Unavailable, msg), srv))
       | Inr agent \<Rightarrow>
           (case privateKey (srv_jwtManager srv)
                   (''RS256'',
                    \<lparr>jc_AgentID = ID agent, jc_ClientID = req_ClientId req,
                     jc_Model = req_Model req, jc_ID = uuid_jti env,
                     jc_IssuedAt = NewNumericDate (now_jwt env),
                     jc_ExpiresAt = NewNumericDate (now_jwt env + TokenTTL (srv_config srv)),
                     jc_NotBefore = NewNumericDate (now_jwt env),
                     jc_Issuer = ''titancompute-coordinator''\<rparr>) of
              None \<Rightarrow>
                (\<exists>msg. RequestInference rnd srv env order req = (Inl (Internal, msg), srv))
            | Some sg \<Rightarrow>
                RequestInference rnd srv env order req =
                  (Inr \<lparr>resp_AgentEndpoint = Endpoint agent,
                        resp_SessionToken =
                          Compact ''RS256''
                            \<lparr>jc_AgentID = ID agent, jc_ClientID = req_ClientId req,
                             jc_Model = req_Model req, jc_ID = uuid_jti env,
                             jc_IssuedAt = NewNumericDate (now_jwt env),
                             jc_ExpiresAt =
                               NewNumericDate (now_jwt env + TokenTTL (srv_config srv)),
                             jc_NotBefore = NewNumericDate (now_jwt env),
                             jc_Issuer = ''titancompute-coordinator''\<rparr> sg,
                        resp_ExpiresAt = Unix (now_session env + TokenTTL (srv_config srv)),
                        resp_JobId = uuid_job env,
                        resp_EstimatedRttMs = RTTMs agent,
                        resp_AgentId = ID agent\<rparr>,
                   srv\<lparr>srv_tokens := (srv_tokens srv)(uuid_session env \<mapsto>
                          \<lparr>st_ID = uuid_session env, st_AgentID = ID agent,
                           st_ClientID = req_ClientId req, st_Model = req_Model req,
                           st_IssuedAt = now_session env,
                           st_ExpiresAt = now_session env + TokenTTL (srv_config srv),
                           st_JWTToken =
                             Compact ''RS256''
                               \<lparr>jc_AgentID = ID agent, jc_ClientID = req_ClientId req,
                                jc_Model = req_Model req, jc_ID = uuid_jti env,
                                jc_IssuedAt = NewNumericDate (now_jwt env),
                                jc_ExpiresAt =
                                  NewNumericDate (now_jwt env + TokenTTL (srv_config srv)),
                                jc_NotBefore = NewNumericDate (now_jwt env),
                                jc_Issuer = ''titancompute-coordinator''\<rparr> sg\<rparr>)\<rparr>))))"
  by (auto simp: RequestInference_def generateSessionToken_def GenerateToken_def Let_def
      split: sum.splits option.splits)

text \<open>
  The four outcomes on the example server; the token of the last one names the agent, the
  client and the model, expires at 1060 s, and verifies under the public key at 1030 s.
\<close>

theorem RequestInference_outcomes_witness:
  "RequestInference exact (exampleServer singleRegistry toyManager) exampleEffects [''a1'']
      (exampleRequest [])
     = (Inl (InvalidArgument, ''prompt is required''), exampleServer singleRegistry toyManager)
   \<and> RequestInference exact (exampleServer emptyRegistry toyManager) exampleEffects []
      (exampleRequest ''hello'')
     = (Inl (Unavailable, ''no agents available''), exampleServer emptyRegistry toyManager)
   \<and> RequestInference exact (exampleServer singleRegistry brokenManager) exampleEffects [''a1'']
      (exampleRequest ''hello'')
     = (Inl (Internal, ''token generation failed''), exampleServer singleRegistry brokenManager)
   \<and> RequestInference exact (exampleServer singleRegistry toyManager) exampleEffects [''a1'']
      (exampleRequest ''hello'')
     = (Inr \<lparr>resp_AgentEndpoint = ''10.0.0.7:50052'',
             resp_SessionToken = exampleJWT (1060 * second),
             resp_ExpiresAt = 1060, resp_JobId = ''job-1'', resp_EstimatedRttMs = Fin 0,
             resp_AgentId = ''a1''\<rparr>,
        (exampleServer singleRegistry toyManager)\<lparr>srv_tokens := [''tok-1'' \<mapsto> exampleToken]\<rparr>)
   \<and> ValidateToken toyManager (1030 * second) (exampleJWT (1060 * second))
       = Inr (exampleClaims (1060 * second))
   \<and> jc_AgentID (exampleClaims (1060 * second)) = ''a1''
   \<and> jc_ClientID (exampleClaims (1060 * second)) = ''c1''
   \<and> jc_Model (exampleClaims (1060 * second)) = ''llama3:7b''"
  using RequestInference_outcomes
      [of "exampleRequest []" exact "exampleServer singleRegistry toyManager"
          exampleEffects "[''a1'']"]
    RequestInference_outcomes
      [of "exampleRequest ''hello''" exact "exampleServer emptyRegistry toyManager"
          exampleEffects "[]"]
    RequestInference_outcomes
      [of "exampleRequest ''hello''" exact "exampleServer singleRegistry brokenManager"
          exampleEffects "[''a1'']"]
    RequestInference_outcomes
      [of "exampleRequest ''hello''" exact "exampleServer singleRegistry toyManager"
          exampleEffects "[''a1'']"]
  by (simp add: RequestInference_def generateSessionToken_def GenerateToken_def Unix_def
      NewNumericDate_def ValidateToken_def ParseWithClaims_def isSigningMethodRSA_def
      SelectAgent_single_7b SelectAgent_empty srv_defs registered_def newAgentInfo_def
      exampleRegistration_def second_def Let_def)

subsection \<open>C10: the frame of RecordSuccess\<close>

text \<open>
  C10: on a registered agent \<open>RecordSuccess\<close> succeeds and touches that agent's record
  only. If the agent is not half-open, the success count goes up by one (as an \<open>int32\<close>),
  the failure count becomes 0 and every other field stays. If it is half-open, the same
  happens, and when the new success count reaches the success threshold the status becomes
  healthy and the success count 0.
\<close>

theorem RecordSuccess_frame:
  assumes "agents r agentID = Some agent"
  shows "\<exists>r'. RecordSuccess r agentID = Inr r'
      \<and> r' = r\<lparr>agents := agents r'\<rparr>
      \<and> (\<forall>k. k \<noteq> agentID \<longrightarrow> agents r' k = agents r k)
      \<and> (Status agent \<noteq> StatusHalfOpen \<longrightarrow>
           agents r' agentID =
             Some (agent\<lparr>SuccessCount := SuccessCount agent + 1, FailureCount := 0\<rparr>))
      \<and> (Status agent = StatusHalfOpen \<longrightarrow>
           agents r' agentID =
             Some (if sint (SuccessCount agent + 1) \<ge> sint (SuccessThreshold (circuitConfig r))
                   then agent\<lparr>SuccessCount := 0, FailureCount := 0, Status := StatusHealthy\<rparr>
                   else agent\<lparr>SuccessCount := SuccessCount agent + 1, FailureCount := 0\<rparr>))"
  using assms by (simp add: RecordSuccess_def successUpdate_def Let_def)

theorem RecordSuccess_frame_witness:
  "agents singleRegistry ''a1'' = Some (registered ''a1'' 8192)
   \<and> Status (registered ''a1'' 8192) \<noteq> StatusHalfOpen
   \<and> RecordSuccess singleRegistry ''a1'' =
       Inr (registryOf [''a1'' \<mapsto> (registered ''a1'' 8192)\<lparr>SuccessCount := 1, FailureCount := 0\<rparr>])
   \<and> agents halfOpenRegistry ''a1'' = Some halfOpenAgent
   \<and> Status halfOpenAgent = StatusHalfOpen
   \<and> RecordSuccess halfOpenRegistry ''a1'' =
       Inr (registryOf [''a1'' \<mapsto>
              halfOpenAgent\<lparr>SuccessCount := 0, FailureCount := 0, Status := StatusHealthy\<rparr>])"
  using RecordSuccess_frame [of singleRegistry "''a1''" "registered ''a1'' 8192"]
    RecordSuccess_frame [of halfOpenRegistry "''a1''" halfOpenAgent]
  by (simp add: RecordSuccess_def successUpdate_def ex_defs Let_def)

end
